theory Spec2Isabelle
  imports Complex_Main
begin

section \<open>Numbers\<close>

text \<open>
  The chart works on JavaScript numbers. Prices, times and pixel coordinates are modelled
  as \<^typ>\<open>real\<close>: the arithmetic of the source is read in exact arithmetic, rounding of
  IEEE doubles is not part of the model. Indices of panes and of time-scale points are
  \<^typ>\<open>int\<close>. A value the source compares against \<^verbatim>\<open>null\<close> or \<^verbatim>\<open>undefined\<close> is an
  \<^typ>\<open>'a option\<close>.
\<close>

section \<open>Annotation data (trendline-data.ts, fibonacci-retracement.ts)\<close>

text \<open>
  \<^verbatim>\<open>TrendlinePoint\<close> and \<^verbatim>\<open>FibonacciPoint\<close> are the same interface,
  \<^verbatim>\<open>{ time, value }\<close>; one record serves both. \<^verbatim>\<open>TrendlineData\<close> and
  \<^verbatim>\<open>FibonacciData\<close> are \<^verbatim>\<open>{ id, point1, point2 }\<close>.
\<close>

record AnchorPoint =
  p_time :: real
  p_value :: real

record AnnotationData =
  a_id :: string
  point1 :: AnchorPoint
  point2 :: AnchorPoint

text \<open>Of \<^verbatim>\<open>FibonacciOptions\<close> only \<^verbatim>\<open>levels\<close> takes part in a computation.\<close>

record FibonacciOptions =
  showLabels :: bool
  extendLines :: bool
  levels :: "real list"

definition defaultFibonacciOptions :: FibonacciOptions where
  "defaultFibonacciOptions =
     \<lparr>showLabels = True, extendLines = False,
      levels = [0, 0.236, 0.382, 0.5, 0.618, 0.786, 1.0]\<rparr>"

record FibonacciRetracement =
  fib_data :: AnnotationData
  fib_options :: FibonacciOptions

text \<open>
  \<^verbatim>\<open>new FibonacciRetracement(data, options)\<close>: the options given override the defaults;
  here the optional argument is the list of levels.
\<close>

definition newFibonacciRetracement :: "AnnotationData \<Rightarrow> real list option \<Rightarrow> FibonacciRetracement" where
  "newFibonacciRetracement d lv =
     \<lparr>fib_data = d,
      fib_options = (case lv of None \<Rightarrow> defaultFibonacciOptions
                     | Some l \<Rightarrow> defaultFibonacciOptions\<lparr>levels := l\<rparr>)\<rparr>"

text \<open>
  \<^verbatim>\<open>FibonacciRetracement.calculateLevels\<close>. Each element of the result is the pair
  (level, price); the third component of the source, the label
  \<^verbatim>\<open>(level * 100).toFixed(1) + '%'\<close>, is a string made from the level alone and is left out.
\<close>

definition calculateLevels :: "FibonacciRetracement \<Rightarrow> (real \<times> real) list" where
  "calculateLevels f =
     (let p1 = point1 (fib_data f);
          p2 = point2 (fib_data f);
          priceRange = \<bar>p_value p2 - p_value p1\<bar>;
          isUptrend = (p_value p2 > p_value p1);
          baseLevelPrice = (if isUptrend then p_value p2 else p_value p1)
      in map (\<lambda>level.
               let retracement = priceRange * level;
                   price = (if isUptrend then baseLevelPrice - retracement
                            else baseLevelPrice + retracement)
               in (level, price))
             (levels (fib_options f)))"

section \<open>The time scale as the widgets see it\<close>

text \<open>
  The \<^verbatim>\<open>TimeScale\<close> class is not among the sources. The widgets reach five of its
  methods, and the record below is that interface: each method is a field, so that the
  functions of the widgets are stated for every time scale. \<^verbatim>\<open>originalTime\<close> is read
  through \<^verbatim>\<open>?.\<close> and compared with \<^verbatim>\<open>undefined\<close>; the coordinate of an index is
  compared with \<^verbatim>\<open>null\<close>.
\<close>

record TimeScalePoint =
  originalTime :: "real option"

record TimeScale =
  baseIndex :: int
  indexToTimeScalePoint :: "int \<Rightarrow> TimeScalePoint option"
  indexToCoordinate :: "int \<Rightarrow> real option"
  timeToIndex :: "real \<Rightarrow> bool \<Rightarrow> int option"
  coordinateToIndex :: "real \<Rightarrow> int option"

text \<open>\<^verbatim>\<open>timeScale.indexToTimeScalePoint(i)?.originalTime\<close>\<close>

definition originalTimeAt :: "TimeScale \<Rightarrow> int \<Rightarrow> real option" where
  "originalTimeAt ts i =
     (case indexToTimeScalePoint ts i of None \<Rightarrow> None | Some p \<Rightarrow> originalTime p)"

section \<open>Extrapolation of a time beyond the last bar\<close>

text \<open>
  \<^verbatim>\<open>ChartWidget._extrapolateTimeFromCoordinate(x)\<close>. The argument \<open>now\<close> is the value of
  \<^verbatim>\<open>Date.now()\<close>, in milliseconds.
\<close>

definition ChartWidget_extrapolateTimeFromCoordinate :: "TimeScale \<Rightarrow> real \<Rightarrow> real \<Rightarrow> real" where
  "ChartWidget_extrapolateTimeFromCoordinate ts now x =
     (let bi = baseIndex ts;
          baseTime = originalTimeAt ts bi;
          baseCoord = indexToCoordinate ts bi;
          prevIndex = bi - 1;
          prevTime = originalTimeAt ts prevIndex;
          prevCoord = indexToCoordinate ts prevIndex;
          fallbackTime = now / 1000 + (x * 86400 / 100)
      in case (baseTime, baseCoord, prevTime, prevCoord) of
           (Some bt, Some bc, Some pt, Some pc) \<Rightarrow>
             (let timeInterval = bt - pt;
                  coordInterval = bc - pc
              in if coordInterval \<noteq> 0
                 then (let timePerPixel = timeInterval / coordInterval;
                           pixelsBeyondBase = x - bc
                       in bt + (pixelsBeyondBase * timePerPixel))
                 else fallbackTime)
         | _ \<Rightarrow> fallbackTime)"

text \<open>
  \<^verbatim>\<open>PaneWidget._extrapolateTimeFromCoordinate(x, timeScale)\<close>. The body of the source is
  inside \<^verbatim>\<open>try\<close>; its handler returns \<^verbatim>\<open>Date.now() / 1000\<close>, the value of the
  fallback, so both ways out of the main path are the one \<open>fallback\<close> below.
\<close>

definition PaneWidget_extrapolateTimeFromCoordinate :: "real \<Rightarrow> TimeScale \<Rightarrow> real \<Rightarrow> real" where
  "PaneWidget_extrapolateTimeFromCoordinate x ts now =
     (let bi = baseIndex ts;
          baseCoord = indexToCoordinate ts bi;
          baseTime = originalTimeAt ts bi;
          prevIndex = bi - 1;
          prevCoord = indexToCoordinate ts prevIndex;
          prevTime = originalTimeAt ts prevIndex;
          fallback = now / 1000
      in case (baseTime, prevTime, baseCoord, prevCoord) of
           (Some bt, Some pt, Some bc, Some pc) \<Rightarrow>
             (let timeInterval = bt - pt;
                  coordInterval = bc - pc
              in if coordInterval \<noteq> 0
                 then (let timePerPixel = timeInterval / coordInterval;
                           pixelDiff = x - bc
                       in bt + (pixelDiff * timePerPixel))
                 else fallback)
         | _ \<Rightarrow> fallback)"

text \<open>
  Two time scales to run the functions on. \<open>scenarioTimeScale\<close> has two points, of times
  100 and 200, at the pixels 10 and 20. \<open>onePointTimeScale\<close> has a single point, of time
  100, at the pixel 10: index \<open>-1\<close> has no point.
\<close>

definition scenarioTimeScale :: TimeScale where
  "scenarioTimeScale =
     \<lparr>baseIndex = 1,
      indexToTimeScalePoint = (\<lambda>i. if i = 0 then Some \<lparr>originalTime = Some 100\<rparr>
                                   else if i = 1 then Some \<lparr>originalTime = Some 200\<rparr>
                                   else None),
      indexToCoordinate = (\<lambda>i. Some (10 * (real_of_int i + 1))),
      timeToIndex = (\<lambda>t exact. if t = 100 then Some 0 else if t = 200 then Some 1 else None),
      coordinateToIndex = (\<lambda>x. Some (round (x / 10) - 1))\<rparr>"

definition onePointTimeScale :: TimeScale where
  "onePointTimeScale =
     \<lparr>baseIndex = 0,
      indexToTimeScalePoint = (\<lambda>i. if i = 0 then Some \<lparr>originalTime = Some 100\<rparr> else None),
      indexToCoordinate = (\<lambda>i. Some (10 * (real_of_int i + 1))),
      timeToIndex = (\<lambda>t exact. if t = 100 then Some 0 else None),
      coordinateToIndex = (\<lambda>x. Some (round (x / 10) - 1))\<rparr>"

section \<open>Invalidation masks\<close>

text \<open>
  Modelled from the spec: the class \<^verbatim>\<open>InvalidateMask\<close> (model/invalidate-mask.ts) is not
  among the sources. A mask is a global level, a level and an auto-scale flag per pane,
  and the sequence of time-scale invalidations; merging takes the greater level, the
  disjunction of the flags, and appends the time-scale invalidations.
\<close>

datatype InvalidationLevel = LevelNone | LevelCursor | LevelLight | LevelFull

fun levelRank :: "InvalidationLevel \<Rightarrow> nat" where
  "levelRank LevelNone = 0"
| "levelRank LevelCursor = 1"
| "levelRank LevelLight = 2"
| "levelRank LevelFull = 3"

definition maxLevel :: "InvalidationLevel \<Rightarrow> InvalidationLevel \<Rightarrow> InvalidationLevel" where
  "maxLevel a b = (if levelRank a < levelRank b then b else a)"

record PaneInvalidation =
  pi_level :: InvalidationLevel
  pi_autoScale :: bool

datatype TimeScaleInvalidation =
    FitContent | ApplyRange real real | ApplyBarSpacing real | ApplyRightOffset real | Reset

record InvalidateMask =
  globalLevel :: InvalidationLevel
  invalidatedPanes :: "int \<rightharpoonup> PaneInvalidation"
  timeScaleInvalidations :: "TimeScaleInvalidation list"

definition newInvalidateMask :: "InvalidationLevel \<Rightarrow> InvalidateMask" where
  "newInvalidateMask l = \<lparr>globalLevel = l, invalidatedPanes = Map.empty, timeScaleInvalidations = []\<rparr>"

definition mask_full :: InvalidateMask where
  "mask_full = newInvalidateMask LevelFull"

definition mask_light :: InvalidateMask where
  "mask_light = newInvalidateMask LevelLight"

definition mergePaneInvalidation :: "PaneInvalidation \<Rightarrow> PaneInvalidation \<Rightarrow> PaneInvalidation" where
  "mergePaneInvalidation a b =
     \<lparr>pi_level = maxLevel (pi_level a) (pi_level b), pi_autoScale = (pi_autoScale a \<or> pi_autoScale b)\<rparr>"

definition invalidatePane :: "int \<Rightarrow> PaneInvalidation \<Rightarrow> InvalidateMask \<Rightarrow> InvalidateMask" where
  "invalidatePane i pinv m =
     m\<lparr>invalidatedPanes := (invalidatedPanes m)(i \<mapsto>
          (case invalidatedPanes m i of None \<Rightarrow> pinv | Some old \<Rightarrow> mergePaneInvalidation old pinv))\<rparr>"

definition mask_merge :: "InvalidateMask \<Rightarrow> InvalidateMask \<Rightarrow> InvalidateMask" where
  "mask_merge a b =
     \<lparr>globalLevel = maxLevel (globalLevel a) (globalLevel b),
      invalidatedPanes = (\<lambda>i. case (invalidatedPanes a i, invalidatedPanes b i) of
                                (None, y) \<Rightarrow> y
                              | (Some x, None) \<Rightarrow> Some x
                              | (Some x, Some y) \<Rightarrow> Some (mergePaneInvalidation x y)),
      timeScaleInvalidations = timeScaleInvalidations a @ timeScaleInvalidations b\<rparr>"

section \<open>Price scales and panes\<close>

text \<open>
  Modelled from the spec: the classes \<^verbatim>\<open>PriceScale\<close> and \<^verbatim>\<open>Pane\<close> are not among the
  sources. A price scale is its options, its \<^verbatim>\<open>firstValue()\<close> (\<^verbatim>\<open>null\<close> while there is
  no data) and its two conversions, taken as they are; a partial options object is the
  function that merges it into the options. A pane is an ordered list of data sources
  (series are numbered, the number is the identity of the object), a stretch factor and
  a left, a right and overlay price scales; \<open>pane_uid\<close> is the identity of the pane
  object, which \<^verbatim>\<open>indexOf\<close> compares.
\<close>

record PriceScaleOptions =
  autoScale :: bool
  ps_visible :: bool

record PriceScale =
  ps_options :: PriceScaleOptions
  firstValue :: "real option"
  coordinateToPrice :: "real \<Rightarrow> real \<Rightarrow> real option"
  priceToCoordinate :: "real \<Rightarrow> real \<Rightarrow> real option"

definition PriceScale_applyOptions :: "(PriceScaleOptions \<Rightarrow> PriceScaleOptions) \<Rightarrow> PriceScale \<Rightarrow> PriceScale" where
  "PriceScale_applyOptions opts ps = ps\<lparr>ps_options := opts (ps_options ps)\<rparr>"

record Pane =
  pane_uid :: nat
  dataSources :: "nat list"
  stretchFactor :: real
  leftPriceScale :: PriceScale
  rightPriceScale :: PriceScale
  overlayPriceScales :: "(string \<times> PriceScale) list"
  rightIsDefault :: bool

definition defaultPriceScale :: "Pane \<Rightarrow> PriceScale" where
  "defaultPriceScale p = (if rightIsDefault p then rightPriceScale p else leftPriceScale p)"

definition priceScaleById :: "Pane \<Rightarrow> string \<Rightarrow> PriceScale option" where
  "priceScaleById p i =
     (if i = ''left'' then Some (leftPriceScale p)
      else if i = ''right'' then Some (rightPriceScale p)
      else map_of (overlayPriceScales p) i)"

definition emptyPriceScale :: PriceScale where
  "emptyPriceScale =
     \<lparr>ps_options = \<lparr>autoScale = True, ps_visible = True\<rparr>, firstValue = None,
      coordinateToPrice = (\<lambda>y fv. None), priceToCoordinate = (\<lambda>p fv. None)\<rparr>"

definition newPane :: "nat \<Rightarrow> Pane" where
  "newPane uid =
     \<lparr>pane_uid = uid, dataSources = [], stretchFactor = 1,
      leftPriceScale = emptyPriceScale, rightPriceScale = emptyPriceScale,
      overlayPriceScales = [], rightIsDefault = True\<rparr>"

section \<open>JavaScript arrays\<close>

text \<open>\<^verbatim>\<open>xs.indexOf(v)\<close>: the first position of \<open>v\<close>, or \<open>-1\<close>.\<close>

fun indexOf :: "'a list \<Rightarrow> 'a \<Rightarrow> int" where
  "indexOf [] v = -1"
| "indexOf (x # xs) v = (if x = v then 0 else (let r = indexOf xs v in if r < 0 then -1 else r + 1))"

text \<open>
  \<^verbatim>\<open>xs.splice(i, 1)\<close>: a negative start counts from the end, and the start is clamped
  to the array; at most one element leaves.
\<close>

definition splice1 :: "int \<Rightarrow> 'a list \<Rightarrow> 'a list" where
  "splice1 i xs =
     (let n = int (length xs);
          start = (if i < 0 then max (n + i) 0 else min i n)
      in take (nat start) xs @ drop (nat start + 1) xs)"

text \<open>\<^verbatim>\<open>xs[i]\<close>: \<^verbatim>\<open>undefined\<close> outside the array.\<close>

definition at_index :: "'a list \<Rightarrow> int \<Rightarrow> 'a option" where
  "at_index xs i = (if 0 \<le> i \<and> i < int (length xs) then Some (xs ! nat i) else None)"

text \<open>\<^verbatim>\<open>map.set(k, v)\<close> on a \<^verbatim>\<open>Map\<close>, which keeps the order of insertion.\<close>

fun map_set :: "'k \<Rightarrow> 'v \<Rightarrow> ('k \<times> 'v) list \<Rightarrow> ('k \<times> 'v) list" where
  "map_set k v [] = [(k, v)]"
| "map_set k v ((k', v') # kvs) = (if k' = k then (k, v) # kvs else (k', v') # map_set k v kvs)"

definition map_delete :: "'k \<Rightarrow> ('k \<times> 'v) list \<Rightarrow> ('k \<times> 'v) list" where
  "map_delete k kvs = filter (\<lambda>kv. fst kv \<noteq> k) kvs"

section \<open>The chart model and the chart widget\<close>

record Trendline =
  tl_data :: AnnotationData
  tl_visible :: bool

definition newTrendline :: "AnnotationData \<Rightarrow> Trendline" where
  "newTrendline d = \<lparr>tl_data = d, tl_visible = True\<rparr>"

text \<open>The \<^verbatim>\<open>{ x, y, time, price }\<close> objects of the drawing state.\<close>

record DrawPoint =
  dp_x :: real
  dp_y :: real
  dp_time :: real
  dp_price :: real

text \<open>
  Of the \<^verbatim>\<open>Crosshair\<close> (not among the sources) the fields the widget writes:
  \<^verbatim>\<open>_visible\<close> and \<^verbatim>\<open>_showCenterDot\<close>.
\<close>

record Crosshair =
  c_visible :: bool
  showCenterDot :: bool

record PaneData =
  pd_id :: nat
  pd_index :: nat
  pd_height :: real

text \<open>
  \<^verbatim>\<open>ChartModel\<close>. \<open>crosshairMode\<close> is \<^verbatim>\<open>options.crosshair.mode\<close>;
  \<open>opt_leftPriceScale\<close> and \<open>opt_rightPriceScale\<close> are the price-scale options of the
  chart options. \<open>nextPaneUid\<close> is the supply of identities for new \<^verbatim>\<open>Pane\<close> objects.
\<close>

record ChartModel =
  panes :: "Pane list"
  serieses :: "nat list"
  paneDataMap :: "(int \<times> PaneData) list"
  nextPaneId :: nat
  nextPaneUid :: nat
  crosshairMode :: int
  opt_leftPriceScale :: PriceScaleOptions
  opt_rightPriceScale :: PriceScaleOptions
  crosshair :: Crosshair
  currentSymbol :: string
  trendlinesBySymbol :: "(string \<times> (string \<times> Trendline) list) list"
  fibonacciBySymbol :: "(string \<times> (string \<times> FibonacciRetracement) list) list"
  trendlines :: "(string \<times> Trendline) list"
  fibonacciRetracements :: "(string \<times> FibonacciRetracement) list"
  isDrawingTrendline :: bool
  trendlineStartPoint :: "DrawPoint option"
  trendlinePreviewEnd :: "DrawPoint option"

text \<open>\<^verbatim>\<open>ToolbarWidget\<close>: the two flags behind the buttons.\<close>

record ToolbarWidget =
  isTrendlineActive :: bool
  isFibonacciActive :: bool

text \<open>
  \<^verbatim>\<open>ChartWidget\<close>, with its model inside: the model calls the widget's
  \<^verbatim>\<open>_invalidateHandler\<close> on every invalidation, so an operation of the model is a
  function on the widget. \<open>rafRequests\<close> counts the calls of
  \<^verbatim>\<open>window.requestAnimationFrame\<close>; the handle the browser returns is the number of
  the request.
\<close>

record ChartWidget =
  model :: ChartModel
  invalidateMask :: "InvalidateMask option"
  drawPlanned :: bool
  drawRafId :: nat
  rafRequests :: nat
  cursorStyleOverride :: "string option"
  toolbarWidget :: "ToolbarWidget option"
  w_isDrawingTrendline :: bool
  w_trendlineStartPoint :: "DrawPoint option"
  w_trendlinePreviewEnd :: "DrawPoint option"
  originalCrosshairMode :: "int option"
  isDrawingFibonacci :: bool
  fibonacciStartPoint :: "DrawPoint option"
  fibonacciPreviewEnd :: "DrawPoint option"

subsection \<open>Invalidation\<close>

text \<open>
  \<^verbatim>\<open>ChartWidget._invalidateHandler\<close>. The callback handed to
  \<^verbatim>\<open>requestAnimationFrame\<close> runs in a later task; here the request is counted.
\<close>

definition invalidateHandler :: "InvalidateMask \<Rightarrow> ChartWidget \<Rightarrow> ChartWidget" where
  "invalidateHandler msk w =
     (let w1 = (case invalidateMask w of
                  Some pending \<Rightarrow> w\<lparr>invalidateMask := Some (mask_merge pending msk)\<rparr>
                | None \<Rightarrow> w\<lparr>invalidateMask := Some msk\<rparr>)
      in if \<not> drawPlanned w1
         then w1\<lparr>drawPlanned := True, drawRafId := Suc (rafRequests w1),
                 rafRequests := Suc (rafRequests w1)\<rparr>
         else w1)"

text \<open>
  \<^verbatim>\<open>ChartModel._invalidate\<close>: the handler is the widget's. The update of the grid views
  that follows changes no state of the model.
\<close>

definition invalidate :: "InvalidateMask \<Rightarrow> ChartWidget \<Rightarrow> ChartWidget" where
  "invalidate msk w = invalidateHandler msk w"

definition fullUpdate :: "ChartWidget \<Rightarrow> ChartWidget" where
  "fullUpdate w = invalidate mask_full w"

definition lightUpdate :: "ChartWidget \<Rightarrow> ChartWidget" where
  "lightUpdate w = invalidate mask_light w"

definition cursorUpdate :: "ChartWidget \<Rightarrow> ChartWidget" where
  "cursorUpdate w = invalidate (newInvalidateMask LevelCursor) w"

text \<open>A sequence of mutations, each with its mask, in one synchronous run.\<close>

fun invalidateAll :: "InvalidateMask list \<Rightarrow> ChartWidget \<Rightarrow> ChartWidget" where
  "invalidateAll [] w = w"
| "invalidateAll (m # ms) w = invalidateAll ms (invalidate m w)"

text \<open>The pending mask after merging the masks \<open>ms\<close> into it, in their order.\<close>

fun mergeAll :: "InvalidateMask option \<Rightarrow> InvalidateMask list \<Rightarrow> InvalidateMask option" where
  "mergeAll p [] = p"
| "mergeAll p (m # ms) =
     mergeAll (Some (case p of None \<Rightarrow> m | Some pending \<Rightarrow> mask_merge pending m)) ms"

subsection \<open>Options and drawing state of the model\<close>

text \<open>
  \<^verbatim>\<open>ChartModel.applyOptions({ crosshair: { mode } })\<close>: the options are merged and the
  chart is fully invalidated; with no price-scale options in the argument nothing is
  fired.
\<close>

definition applyOptions_crosshairMode :: "int \<Rightarrow> ChartWidget \<Rightarrow> ChartWidget" where
  "applyOptions_crosshairMode m w = fullUpdate (w\<lparr>model := (model w)\<lparr>crosshairMode := m\<rparr>\<rparr>)"

definition setTrendlineDrawingState :: "bool \<Rightarrow> ChartModel \<Rightarrow> ChartModel" where
  "setTrendlineDrawingState isDrawing m =
     (let m1 = m\<lparr>isDrawingTrendline := isDrawing\<rparr>
      in if \<not> isDrawing then m1\<lparr>trendlineStartPoint := None, trendlinePreviewEnd := None\<rparr>
         else m1)"

definition setTrendlineStartPoint :: "DrawPoint option \<Rightarrow> ChartModel \<Rightarrow> ChartModel" where
  "setTrendlineStartPoint p m = m\<lparr>trendlineStartPoint := p\<rparr>"

definition setTrendlinePreviewEnd :: "DrawPoint option \<Rightarrow> ChartModel \<Rightarrow> ChartModel" where
  "setTrendlinePreviewEnd p m = m\<lparr>trendlinePreviewEnd := p\<rparr>"

text \<open>
  \<^verbatim>\<open>_getCurrentSymbolTrendlines\<close> and \<^verbatim>\<open>_getCurrentSymbolFibonacci\<close>: the map of the
  current symbol, or the global one when no symbol is set. The source creates the map
  of a symbol on the first read; here a symbol with no entry reads as the empty map.
\<close>

definition getCurrentSymbolTrendlines :: "ChartModel \<Rightarrow> (string \<times> Trendline) list" where
  "getCurrentSymbolTrendlines m =
     (if currentSymbol m = [] then trendlines m
      else (case map_of (trendlinesBySymbol m) (currentSymbol m) of None \<Rightarrow> [] | Some t \<Rightarrow> t))"

definition setCurrentSymbolTrendlines :: "(string \<times> Trendline) list \<Rightarrow> ChartModel \<Rightarrow> ChartModel" where
  "setCurrentSymbolTrendlines t m =
     (if currentSymbol m = [] then m\<lparr>trendlines := t\<rparr>
      else m\<lparr>trendlinesBySymbol := map_set (currentSymbol m) t (trendlinesBySymbol m)\<rparr>)"

definition getCurrentSymbolFibonacci :: "ChartModel \<Rightarrow> (string \<times> FibonacciRetracement) list" where
  "getCurrentSymbolFibonacci m =
     (if currentSymbol m = [] then fibonacciRetracements m
      else (case map_of (fibonacciBySymbol m) (currentSymbol m) of None \<Rightarrow> [] | Some t \<Rightarrow> t))"

definition setCurrentSymbolFibonacci :: "(string \<times> FibonacciRetracement) list \<Rightarrow> ChartModel \<Rightarrow> ChartModel" where
  "setCurrentSymbolFibonacci t m =
     (if currentSymbol m = [] then m\<lparr>fibonacciRetracements := t\<rparr>
      else m\<lparr>fibonacciBySymbol := map_set (currentSymbol m) t (fibonacciBySymbol m)\<rparr>)"

text \<open>
  \<^verbatim>\<open>ChartModel.addTrendline\<close> and \<^verbatim>\<open>ChartModel.addFibonacci\<close>. Saving to the store is
  asynchronous and never awaited; it is not part of the state.
\<close>

definition addTrendline :: "AnnotationData \<Rightarrow> ChartWidget \<Rightarrow> ChartWidget" where
  "addTrendline d w =
     fullUpdate (w\<lparr>model := setCurrentSymbolTrendlines
                     (map_set (a_id d) (newTrendline d) (getCurrentSymbolTrendlines (model w)))
                     (model w)\<rparr>)"

definition addFibonacci :: "AnnotationData \<Rightarrow> ChartWidget \<Rightarrow> ChartWidget" where
  "addFibonacci d w =
     fullUpdate (w\<lparr>model := setCurrentSymbolFibonacci
                     (map_set (a_id d) (newFibonacciRetracement d None) (getCurrentSymbolFibonacci (model w)))
                     (model w)\<rparr>)"

subsection \<open>The drawing tools\<close>

definition setCursorStyle :: "string option \<Rightarrow> ChartWidget \<Rightarrow> ChartWidget" where
  "setCursorStyle style w = w\<lparr>cursorStyleOverride := style\<rparr>"

text \<open>\<^verbatim>\<open>ChartWidget._getLastMousePosition\<close> returns \<^verbatim>\<open>null\<close>, always.\<close>

definition getLastMousePosition :: "ChartWidget \<Rightarrow> (real \<times> real) option" where
  "getLastMousePosition w = None"

text \<open>
  \<^verbatim>\<open>ChartWidget._onTrendlineToolToggle\<close>. The branch under a known mouse position
  writes the position of the crosshair, which the model here does not hold; with
  \<^verbatim>\<open>_getLastMousePosition\<close> as it is, the branch never runs.
  \<^verbatim>\<open>crosshair.updateAllViews()\<close> changes views only.
\<close>

definition onTrendlineToolToggle :: "bool \<Rightarrow> ChartWidget \<Rightarrow> ChartWidget" where
  "onTrendlineToolToggle active w =
     (let w1 = w\<lparr>w_isDrawingTrendline := active, w_trendlineStartPoint := None,
                  w_trendlinePreviewEnd := None\<rparr>;
          w2 = w1\<lparr>model := setTrendlineDrawingState active (model w1)\<rparr>
      in if active then
           (let w3 = setCursorStyle (Some ''default'') w2;
                w4 = w3\<lparr>model := (model w3)\<lparr>crosshair := (crosshair (model w3))\<lparr>c_visible := True\<rparr>\<rparr>\<rparr>;
                w5 = w4\<lparr>model := (model w4)\<lparr>crosshair := (crosshair (model w4))\<lparr>showCenterDot := True\<rparr>\<rparr>\<rparr>;
                w6 = w5\<lparr>originalCrosshairMode := Some (crosshairMode (model w5))\<rparr>;
                w7 = applyOptions_crosshairMode 0 w6;
                w8 = (case getLastMousePosition w7 of
                        None \<Rightarrow> w7
                      | Some mousePos \<Rightarrow>
                          w7\<lparr>model := (model w7)\<lparr>crosshair := (crosshair (model w7))\<lparr>c_visible := True\<rparr>\<rparr>\<rparr>)
            in fullUpdate w8)
         else
           (let w3 = setCursorStyle None w2;
                w4 = w3\<lparr>model := (model w3)\<lparr>crosshair := (crosshair (model w3))\<lparr>showCenterDot := False\<rparr>\<rparr>\<rparr>;
                w5 = (case originalCrosshairMode w4 of
                        Some mode \<Rightarrow> (applyOptions_crosshairMode mode w4)\<lparr>originalCrosshairMode := None\<rparr>
                      | None \<Rightarrow> w4)
            in fullUpdate w5))"

text \<open>\<^verbatim>\<open>ChartWidget._onFibonacciToolToggle\<close>\<close>

definition onFibonacciToolToggle :: "bool \<Rightarrow> ChartWidget \<Rightarrow> ChartWidget" where
  "onFibonacciToolToggle active w =
     (let w1 = w\<lparr>isDrawingFibonacci := active, fibonacciStartPoint := None,
                  fibonacciPreviewEnd := None\<rparr>
      in if active then
           (let w2 = setCursorStyle (Some ''crosshair'') w1;
                w3 = w2\<lparr>originalCrosshairMode := Some (crosshairMode (model w2))\<rparr>
            in applyOptions_crosshairMode 0 w3)
         else
           (let w2 = setCursorStyle None w1
            in case originalCrosshairMode w2 of
                 Some mode \<Rightarrow> (applyOptions_crosshairMode mode w2)\<lparr>originalCrosshairMode := None\<rparr>
               | None \<Rightarrow> w2))"

text \<open>
  The click handlers of the two toolbar buttons (\<^verbatim>\<open>ToolbarWidget._createTrendlineButton\<close>,
  \<^verbatim>\<open>_createFibonacciButton\<close>): the other tool is switched off first.
\<close>

definition trendlineButtonClick :: "ChartWidget \<Rightarrow> ChartWidget" where
  "trendlineButtonClick w =
     (case toolbarWidget w of
        None \<Rightarrow> w
      | Some tb \<Rightarrow>
          (let (tb1, w1) = (if isFibonacciActive tb
                            then (tb\<lparr>isFibonacciActive := False\<rparr>, onFibonacciToolToggle False w)
                            else (tb, w));
               tb2 = tb1\<lparr>isTrendlineActive := \<not> isTrendlineActive tb1\<rparr>
           in onTrendlineToolToggle (isTrendlineActive tb2) (w1\<lparr>toolbarWidget := Some tb2\<rparr>)))"

definition fibonacciButtonClick :: "ChartWidget \<Rightarrow> ChartWidget" where
  "fibonacciButtonClick w =
     (case toolbarWidget w of
        None \<Rightarrow> w
      | Some tb \<Rightarrow>
          (let (tb1, w1) = (if isTrendlineActive tb
                            then (tb\<lparr>isTrendlineActive := False\<rparr>, onTrendlineToolToggle False w)
                            else (tb, w));
               tb2 = tb1\<lparr>isFibonacciActive := \<not> isFibonacciActive tb1\<rparr>
           in onFibonacciToolToggle (isFibonacciActive tb2) (w1\<lparr>toolbarWidget := Some tb2\<rparr>)))"

section \<open>Panes of the model\<close>

text \<open>
  What is thrown. An operation that can throw returns an \<open>outcome\<close>: the value returned
  and the state, or the error and the state at the throw, since what was written before
  the throw stays written.
\<close>

datatype error =
    AssertionFailed string
  | IncorrectPaneIndex int
  | IncorrectPriceScaleId string
  | ValueIsNull
  | TypeError

datatype 'v outcome = Returned 'v ChartWidget | Threw error ChartWidget

fun stateOf :: "'v outcome \<Rightarrow> ChartWidget" where
  "stateOf (Returned v w) = w"
| "stateOf (Threw e w) = w"

fun hasThrown :: "'v outcome \<Rightarrow> bool" where
  "hasThrown (Returned v w) = False"
| "hasThrown (Threw e w) = True"

text \<open>
  The build. \<open>nodeEnv\<close> is \<^verbatim>\<open>process.env.NODE_ENV\<close>. The helpers of helpers/assertions
  are not among the sources: whether a failed \<^verbatim>\<open>assert\<close> throws in this build is the
  field \<open>assertsEnabled\<close>, and \<^verbatim>\<open>ensureNotNull\<close> throws on \<^verbatim>\<open>null\<close>. The constant
  \<^verbatim>\<open>DEFAULT_STRETCH_FACTOR\<close> of model/pane is a field as well.
\<close>

datatype NodeEnv = Development | Production

record Env =
  nodeEnv :: NodeEnv
  assertsEnabled :: bool
  defaultStretchFactor :: real

definition assertFails :: "Env \<Rightarrow> bool \<Rightarrow> bool" where
  "assertFails env cond = (assertsEnabled env \<and> \<not> cond)"

definition setPanes :: "Pane list \<Rightarrow> ChartWidget \<Rightarrow> ChartWidget" where
  "setPanes ps w = w\<lparr>model := (model w)\<lparr>panes := ps\<rparr>\<rparr>"

text \<open>\<^verbatim>\<open>ChartModel.getPaneIndex(pane)\<close>: \<^verbatim>\<open>indexOf\<close> on the pane objects.\<close>

definition getPaneIndex :: "ChartModel \<Rightarrow> Pane \<Rightarrow> int" where
  "getPaneIndex m p = indexOf (map pane_uid (panes m)) (pane_uid p)"

text \<open>The pane object \<open>p\<close> after a write: its entry in the array is the written object.\<close>

definition storePane :: "Pane \<Rightarrow> ChartWidget \<Rightarrow> ChartWidget" where
  "storePane p w =
     setPanes (map (\<lambda>q. if pane_uid q = pane_uid p then p else q) (panes (model w))) w"

text \<open>
  \<^verbatim>\<open>ChartModel._getOrCreatePane\<close>. The result is the pane object, \<^verbatim>\<open>undefined\<close> when
  the index is negative and the assertion did not stop it.
\<close>

definition getOrCreatePane :: "Env \<Rightarrow> int \<Rightarrow> ChartWidget \<Rightarrow> (Pane option) outcome" where
  "getOrCreatePane env index w =
     (if assertFails env (index \<ge> 0)
      then Threw (AssertionFailed ''Index should be greater or equal to 0'') w
      else
        (let idx = min (int (length (panes (model w)))) index
         in if idx < int (length (panes (model w)))
            then Returned (at_index (panes (model w)) idx) w
            else
              (let pane = newPane (nextPaneUid (model w));
                   w1 = w\<lparr>model := (model w)\<lparr>panes := panes (model w) @ [pane],
                                               nextPaneUid := Suc (nextPaneUid (model w))\<rparr>\<rparr>;
                   msk = invalidatePane idx \<lparr>pi_level = LevelNone, pi_autoScale = True\<rparr> mask_full
               in Returned (Some pane) (invalidate msk w1))))"

text \<open>
  The constructors. \<^verbatim>\<open>new ChartModel(...)\<close> runs inside \<^verbatim>\<open>new ChartWidget(...)\<close>, with
  the widget's handler bound: the model is built on the fresh widget. \<open>mode\<close>, \<open>lo\<close> and
  \<open>ro\<close> are the crosshair mode and the price-scale options of the chart options; \<open>stored\<close>
  is what \<^verbatim>\<open>_loadFibonacciFromStorage\<close> reads, of which the symbols with an empty map are
  dropped. The trendlines of the store arrive in a later task.
\<close>

definition emptyChartModel :: "int \<Rightarrow> PriceScaleOptions \<Rightarrow> PriceScaleOptions \<Rightarrow> ChartModel" where
  "emptyChartModel mode lo ro =
     \<lparr>panes = [], serieses = [], paneDataMap = [], nextPaneId = 1, nextPaneUid = 0,
      crosshairMode = mode, opt_leftPriceScale = lo, opt_rightPriceScale = ro,
      crosshair = \<lparr>c_visible = False, showCenterDot = False\<rparr>,
      currentSymbol = [], trendlinesBySymbol = [], fibonacciBySymbol = [],
      trendlines = [], fibonacciRetracements = [],
      isDrawingTrendline = False, trendlineStartPoint = None, trendlinePreviewEnd = None\<rparr>"

definition emptyChartWidget :: "int \<Rightarrow> PriceScaleOptions \<Rightarrow> PriceScaleOptions \<Rightarrow> ChartWidget" where
  "emptyChartWidget mode lo ro =
     \<lparr>model = emptyChartModel mode lo ro, invalidateMask = None, drawPlanned = False,
      drawRafId = 0, rafRequests = 0, cursorStyleOverride = None, toolbarWidget = None,
      w_isDrawingTrendline = False, w_trendlineStartPoint = None, w_trendlinePreviewEnd = None,
      originalCrosshairMode = None, isDrawingFibonacci = False, fibonacciStartPoint = None,
      fibonacciPreviewEnd = None\<rparr>"

definition newChartModel ::
  "Env \<Rightarrow> (string \<times> (string \<times> FibonacciRetracement) list) list \<Rightarrow> ChartWidget \<Rightarrow> (unit) outcome" where
  "newChartModel env stored w =
     (case getOrCreatePane env 0 w of
        Threw e w1 \<Rightarrow> Threw e w1
      | Returned None w1 \<Rightarrow> Threw TypeError w1
      | Returned (Some pane) w1 \<Rightarrow>
          (let w2 = storePane (pane\<lparr>stretchFactor := defaultStretchFactor env * 2\<rparr>) w1
           in Returned () (w2\<lparr>model := (model w2)\<lparr>fibonacciBySymbol :=
                                 filter (\<lambda>sm. snd sm \<noteq> []) stored\<rparr>\<rparr>)))"

definition newChartWidget ::
  "Env \<Rightarrow> int \<Rightarrow> PriceScaleOptions \<Rightarrow> PriceScaleOptions
     \<Rightarrow> (string \<times> (string \<times> FibonacciRetracement) list) list \<Rightarrow> (unit) outcome" where
  "newChartWidget env mode lo ro stored =
     (case newChartModel env stored (emptyChartWidget mode lo ro) of
        Threw e w \<Rightarrow> Threw e w
      | Returned u w \<Rightarrow>
          Returned () (w\<lparr>toolbarWidget := Some \<lparr>isTrendlineActive = False, isFibonacciActive = False\<rparr>\<rparr>))"

text \<open>\<^verbatim>\<open>ChartModel.addPane\<close>; the result is the index of the new pane.\<close>

definition addPane :: "Env \<Rightarrow> real \<Rightarrow> ChartWidget \<Rightarrow> int outcome" where
  "addPane env height w =
     (let paneIndex = int (length (panes (model w)))
      in case getOrCreatePane env paneIndex w of
           Threw e w1 \<Rightarrow> Threw e w1
         | Returned None w1 \<Rightarrow> Threw TypeError w1
         | Returned (Some pane) w1 \<Rightarrow>
             (let w2 = (if height > 0
                        then storePane (pane\<lparr>stretchFactor := height * defaultStretchFactor env / 100\<rparr>) w1
                        else w1);
                  paneData = \<lparr>pd_id = nextPaneId (model w2), pd_index = nat paneIndex, pd_height = height\<rparr>;
                  w3 = w2\<lparr>model := (model w2)\<lparr>nextPaneId := Suc (nextPaneId (model w2)),
                                                 paneDataMap := map_set paneIndex paneData (paneDataMap (model w2))\<rparr>\<rparr>
              in Returned paneIndex (fullUpdate w3)))"

text \<open>
  \<^verbatim>\<open>ChartModel.paneForSource\<close> for a series: the first pane that holds it.
\<close>

definition paneForSource :: "ChartModel \<Rightarrow> nat \<Rightarrow> Pane option" where
  "paneForSource m series = find (\<lambda>p. series \<in> set (dataSources p)) (panes m)"

text \<open>\<^verbatim>\<open>ChartModel.addSeriesToPane\<close>, with \<^verbatim>\<open>_addSeriesToPane\<close> inside.\<close>

definition addSeriesToPane :: "Env \<Rightarrow> nat \<Rightarrow> int \<Rightarrow> ChartWidget \<Rightarrow> (unit) outcome" where
  "addSeriesToPane env series paneIndex w =
     (case getOrCreatePane env paneIndex w of
        Threw e w1 \<Rightarrow> Threw e w1
      | Returned None w1 \<Rightarrow> Threw TypeError w1
      | Returned (Some pane) w1 \<Rightarrow>
          (let w2 = storePane (pane\<lparr>dataSources := dataSources pane @ [series]\<rparr>) w1;
               w3 = w2\<lparr>model := (model w2)\<lparr>serieses := serieses (model w2) @ [series]\<rparr>\<rparr>
           in if length (serieses (model w3)) = 1
              then Returned () (fullUpdate w3)
              else Returned () (lightUpdate w3)))"

text \<open>\<^verbatim>\<open>ChartModel._cleanupIfPaneIsEmpty(pane)\<close>\<close>

definition cleanupIfPaneIsEmpty :: "Pane \<Rightarrow> ChartWidget \<Rightarrow> ChartWidget" where
  "cleanupIfPaneIsEmpty pane w =
     (if length (dataSources pane) = 0 \<and> length (panes (model w)) > 1
      then fullUpdate (setPanes (splice1 (getPaneIndex (model w) pane) (panes (model w))) w)
      else w)"

text \<open>
  \<^verbatim>\<open>ChartModel.removeSeries\<close>. The recalculation of the time scale is outside the state
  of this model.
\<close>

definition removeSeries :: "Env \<Rightarrow> nat \<Rightarrow> ChartWidget \<Rightarrow> (unit) outcome" where
  "removeSeries env series w =
     (let pane = paneForSource (model w) series;
          seriesIndex = indexOf (serieses (model w)) series
      in if assertFails env (seriesIndex \<noteq> -1)
         then Threw (AssertionFailed ''Series not found'') w
         else (case pane of
                 None \<Rightarrow> Threw ValueIsNull w
               | Some paneImpl \<Rightarrow>
                   (let w1 = w\<lparr>model := (model w)\<lparr>serieses := splice1 seriesIndex (serieses (model w))\<rparr>\<rparr>;
                        paneImpl1 = paneImpl\<lparr>dataSources := remove1 series (dataSources paneImpl)\<rparr>;
                        w2 = storePane paneImpl1 w1
                    in Returned () (cleanupIfPaneIsEmpty paneImpl1 w2))))"

text \<open>\<^verbatim>\<open>seriesToRemove.forEach(series => this.removeSeries(series))\<close>\<close>

fun removeSeriesAll :: "Env \<Rightarrow> nat list \<Rightarrow> ChartWidget \<Rightarrow> (unit) outcome" where
  "removeSeriesAll env [] w = Returned () w"
| "removeSeriesAll env (s # ss) w =
     (case removeSeries env s w of
        Threw e w1 \<Rightarrow> Threw e w1
      | Returned u w1 \<Rightarrow> removeSeriesAll env ss w1)"

text \<open>\<^verbatim>\<open>ChartModel.removePane(index)\<close>\<close>

definition removePane :: "Env \<Rightarrow> int \<Rightarrow> ChartWidget \<Rightarrow> (unit) outcome" where
  "removePane env index w =
     (if length (panes (model w)) = 1
      then Returned () w
      else if assertFails env (index \<ge> 0 \<and> index < int (length (panes (model w))))
      then Threw (AssertionFailed ''Invalid pane index'') w
      else Returned () (fullUpdate (setPanes (splice1 index (panes (model w))) w)))"

text \<open>
  The loop at the end of \<^verbatim>\<open>deletePaneById\<close>, which moves the pane data of the panes
  after the deleted one down by one index.
\<close>

fun shiftPaneData :: "int \<Rightarrow> (int \<times> PaneData) list \<Rightarrow> (int \<times> PaneData) list \<Rightarrow> (int \<times> PaneData) list" where
  "shiftPaneData paneIndex [] updated = updated"
| "shiftPaneData paneIndex ((index, d) # rest) updated =
     shiftPaneData paneIndex rest
       (if index > paneIndex then map_set (index - 1) d updated else map_set index d updated)"

text \<open>
  \<^verbatim>\<open>ChartModel.deletePaneById(paneIndex)\<close>. The two guards print a warning and return.
\<close>

definition deletePaneById :: "Env \<Rightarrow> int \<Rightarrow> ChartWidget \<Rightarrow> (unit) outcome" where
  "deletePaneById env paneIndex w =
     (if paneIndex = 0 then Returned () w
      else if paneIndex \<ge> int (length (panes (model w))) \<or> paneIndex < 0 then Returned () w
      else (case at_index (panes (model w)) paneIndex of
              None \<Rightarrow> Threw TypeError w
            | Some pane \<Rightarrow>
                (case removeSeriesAll env (dataSources pane) w of
                   Threw e w1 \<Rightarrow> Threw e w1
                 | Returned u w1 \<Rightarrow>
                     (let w2 = w1\<lparr>model := (model w1)\<lparr>paneDataMap := map_delete paneIndex (paneDataMap (model w1))\<rparr>\<rparr>
                      in case removePane env paneIndex w2 of
                           Threw e w3 \<Rightarrow> Threw e w3
                         | Returned u3 w3 \<Rightarrow>
                             Returned () (fullUpdate
                               (w3\<lparr>model := (model w3)\<lparr>paneDataMap :=
                                      shiftPaneData paneIndex (paneDataMap (model w3)) []\<rparr>\<rparr>))))))"

text \<open>
  \<^verbatim>\<open>ChartModel.moveSeriesToPane\<close>; \<^verbatim>\<open>_seriesPaneIndex\<close> is the index of the first pane
  with the series, or \<open>-1\<close>.
\<close>

definition seriesPaneIndex :: "ChartModel \<Rightarrow> nat \<Rightarrow> int" where
  "seriesPaneIndex m series =
     (case paneForSource m series of None \<Rightarrow> -1 | Some p \<Rightarrow> getPaneIndex m p)"

definition moveSeriesToPane :: "Env \<Rightarrow> nat \<Rightarrow> int \<Rightarrow> ChartWidget \<Rightarrow> (unit) outcome" where
  "moveSeriesToPane env series newPaneIndex w =
     (if assertFails env (newPaneIndex \<ge> 0)
      then Threw (AssertionFailed ''Index should be greater or equal to 0'') w
      else if newPaneIndex = seriesPaneIndex (model w) series then Returned () w
      else (case paneForSource (model w) series of
              None \<Rightarrow> Threw ValueIsNull w
            | Some previousPane \<Rightarrow>
                (let previousPane1 = previousPane\<lparr>dataSources := remove1 series (dataSources previousPane)\<rparr>;
                     w1 = storePane previousPane1 w
                 in case getOrCreatePane env newPaneIndex w1 of
                      Threw e w2 \<Rightarrow> Threw e w2
                    | Returned None w2 \<Rightarrow> Threw TypeError w2
                    | Returned (Some pane) w2 \<Rightarrow>
                        (let w3 = storePane (pane\<lparr>dataSources := dataSources pane @ [series]\<rparr>) w2
                         in if length (dataSources previousPane1) = 0
                            then Returned () (cleanupIfPaneIsEmpty previousPane1 w3)
                            else Returned () w3))))"

subsection \<open>Price-scale options\<close>

text \<open>
  \<^verbatim>\<open>ChartModel.findPriceScale\<close>: the pane and the price scale, or \<^verbatim>\<open>null\<close>.
\<close>

definition findPriceScale :: "ChartModel \<Rightarrow> string \<Rightarrow> int \<Rightarrow> (Pane \<times> PriceScale) option" where
  "findPriceScale m priceScaleId paneIndex =
     (case at_index (panes m) paneIndex of
        None \<Rightarrow> None
      | Some pane \<Rightarrow>
          (case priceScaleById pane priceScaleId of
             Some priceScale \<Rightarrow> Some (pane, priceScale)
           | None \<Rightarrow> None))"

text \<open>
  \<^verbatim>\<open>priceScalesOptionsChanged().fire()\<close>: the one subscriber, from the constructor of
  the widget, is \<^verbatim>\<open>fullUpdate\<close>.
\<close>

definition firePriceScalesOptionsChanged :: "ChartWidget \<Rightarrow> ChartWidget" where
  "firePriceScalesOptionsChanged w = fullUpdate w"

text \<open>
  \<^verbatim>\<open>ChartModel.applyPriceScaleOptions(priceScaleId, options, paneIndex)\<close>; \<open>opts\<close> merges
  the partial options into options.
\<close>

definition applyPriceScaleOptions ::
  "Env \<Rightarrow> string \<Rightarrow> (PriceScaleOptions \<Rightarrow> PriceScaleOptions) \<Rightarrow> int \<Rightarrow> ChartWidget \<Rightarrow> (unit) outcome" where
  "applyPriceScaleOptions env priceScaleId opts paneIndex w =
     (case at_index (panes (model w)) paneIndex of
        None \<Rightarrow>
          (if nodeEnv env = Development then Threw (IncorrectPaneIndex paneIndex) w
           else Returned () w)
      | Some pane \<Rightarrow>
          if priceScaleId = ''left'' then
            (let w1 = w\<lparr>model := (model w)\<lparr>opt_leftPriceScale := opts (opt_leftPriceScale (model w))\<rparr>\<rparr>;
                 w2 = storePane (pane\<lparr>leftPriceScale := PriceScale_applyOptions opts (leftPriceScale pane)\<rparr>) w1
             in Returned () (fullUpdate (firePriceScalesOptionsChanged w2)))
          else if priceScaleId = ''right'' then
            (let w1 = w\<lparr>model := (model w)\<lparr>opt_rightPriceScale := opts (opt_rightPriceScale (model w))\<rparr>\<rparr>;
                 w2 = storePane (pane\<lparr>rightPriceScale := PriceScale_applyOptions opts (rightPriceScale pane)\<rparr>) w1
             in Returned () (fullUpdate (firePriceScalesOptionsChanged w2)))
          else
            (case findPriceScale (model w) priceScaleId paneIndex of
               None \<Rightarrow>
                 (if nodeEnv env = Development then Threw (IncorrectPriceScaleId priceScaleId) w
                  else Returned () w)
             | Some (resPane, resPriceScale) \<Rightarrow>
                 (let w1 = storePane (resPane\<lparr>overlayPriceScales :=
                              map_set priceScaleId (PriceScale_applyOptions opts resPriceScale)
                                (overlayPriceScales resPane)\<rparr>) w
                  in Returned () (firePriceScalesOptionsChanged w1))))"

section \<open>The price-scale API (api/price-scale-api.ts)\<close>

text \<open>
  A number of the API: \<^verbatim>\<open>NaN\<close>, or what the price scale returned.
\<close>

datatype number = NaN | Null | Num real

definition ofNullable :: "real option \<Rightarrow> number" where
  "ofNullable r = (case r of None \<Rightarrow> Null | Some v \<Rightarrow> Num v)"

record PriceScaleApi =
  api_priceScaleId :: string
  api_paneIndex :: int

text \<open>
  \<^verbatim>\<open>PriceScaleApi._priceScale\<close>: \<^verbatim>\<open>ensureNotNull\<close> throws when the model finds no
  price scale.
\<close>

definition PriceScaleApi_priceScale :: "PriceScaleApi \<Rightarrow> ChartModel \<Rightarrow> error + PriceScale" where
  "PriceScaleApi_priceScale api m =
     (case findPriceScale m (api_priceScaleId api) (api_paneIndex api) of
        None \<Rightarrow> Inl ValueIsNull
      | Some (pane, priceScale) \<Rightarrow> Inr priceScale)"

definition PriceScaleApi_coordinateToPrice :: "PriceScaleApi \<Rightarrow> ChartModel \<Rightarrow> real \<Rightarrow> error + number" where
  "PriceScaleApi_coordinateToPrice api m coordinate =
     (case PriceScaleApi_priceScale api m of
        Inl e \<Rightarrow> Inl e
      | Inr priceScale \<Rightarrow>
          (case firstValue priceScale of
             None \<Rightarrow> Inr NaN
           | Some fv \<Rightarrow> Inr (ofNullable (coordinateToPrice priceScale coordinate fv))))"

definition PriceScaleApi_priceToCoordinate :: "PriceScaleApi \<Rightarrow> ChartModel \<Rightarrow> real \<Rightarrow> error + number" where
  "PriceScaleApi_priceToCoordinate api m price =
     (case PriceScaleApi_priceScale api m of
        Inl e \<Rightarrow> Inl e
      | Inr priceScale \<Rightarrow>
          (case firstValue priceScale of
             None \<Rightarrow> Inr NaN
           | Some fv \<Rightarrow> Inr (ofNullable (priceToCoordinate priceScale price fv))))"

section \<open>Charts to run the operations on\<close>

text \<open>
  A development and a production build, with assertions that throw; \<open>chart1\<close> is a new
  chart, \<open>chart2\<close> the chart after \<^verbatim>\<open>addPane(100)\<close>, \<open>chart3\<close> that chart with the series 7
  added to its second pane.
\<close>

definition devEnv :: Env where
  "devEnv = \<lparr>nodeEnv = Development, assertsEnabled = True, defaultStretchFactor = 1000\<rparr>"

definition prodEnv :: Env where
  "prodEnv = \<lparr>nodeEnv = Production, assertsEnabled = True, defaultStretchFactor = 1000\<rparr>"

definition demoScaleOptions :: PriceScaleOptions where
  "demoScaleOptions = \<lparr>autoScale = True, ps_visible = True\<rparr>"

definition chart1 :: ChartWidget where
  "chart1 = stateOf (newChartWidget devEnv 1 demoScaleOptions demoScaleOptions [])"

definition chart2 :: ChartWidget where
  "chart2 = stateOf (addPane devEnv 100 chart1)"

definition chart3 :: ChartWidget where
  "chart3 = stateOf (addSeriesToPane devEnv 7 1 chart2)"

section \<open>Clicks of the drawing tools (chart widget)\<close>

text \<open>The \<^verbatim>\<open>Point\<close> of a mouse event.\<close>

record Point =
  pt_x :: real
  pt_y :: real

text \<open>
  The time of a click, as \<^verbatim>\<open>_handleTrendlineClick\<close> and \<^verbatim>\<open>_handleFibonacciClick\<close>
  compute it: the two handlers hold the same statement, up to their logging. \<open>time\<close> is
  the index the pane widget passes with the click, \<open>x\<close> the pixel of the click.
\<close>

definition clickTimeValue :: "TimeScale \<Rightarrow> real \<Rightarrow> int option \<Rightarrow> real \<Rightarrow> real" where
  "clickTimeValue ts now time x =
     (let bi = baseIndex ts;
          baseCoord = indexToCoordinate ts bi
      in if (case baseCoord of None \<Rightarrow> False | Some bc \<Rightarrow> x > bc)
         then ChartWidget_extrapolateTimeFromCoordinate ts now x
         else (case time of
                 Some t \<Rightarrow>
                   (case originalTimeAt ts t of
                      Some timePoint \<Rightarrow> timePoint
                    | None \<Rightarrow> ChartWidget_extrapolateTimeFromCoordinate ts now x)
               | None \<Rightarrow> ChartWidget_extrapolateTimeFromCoordinate ts now x))"

text \<open>\<^verbatim>\<open>ToolbarWidget.deactivateTrendlineTool\<close> and \<^verbatim>\<open>deactivateFibonacciTool\<close>, on a toolbar that may be \<^verbatim>\<open>null\<close>.\<close>

definition deactivateTrendlineTool :: "ChartWidget \<Rightarrow> ChartWidget" where
  "deactivateTrendlineTool w =
     (case toolbarWidget w of
        None \<Rightarrow> w
      | Some tb \<Rightarrow> w\<lparr>toolbarWidget := Some (tb\<lparr>isTrendlineActive := False\<rparr>)\<rparr>)"

definition deactivateFibonacciTool :: "ChartWidget \<Rightarrow> ChartWidget" where
  "deactivateFibonacciTool w =
     (case toolbarWidget w of
        None \<Rightarrow> w
      | Some tb \<Rightarrow> w\<lparr>toolbarWidget := Some (tb\<lparr>isFibonacciActive := False\<rparr>)\<rparr>)"

text \<open>
  \<^verbatim>\<open>ChartWidget._handleTrendlineClick(pane, time, point, event)\<close>. \<open>ts\<close> is the time scale
  of the model, \<open>pane\<close> the state of the pane widget, \<open>newId\<close> the identifier the handler
  makes from the clock and \<^verbatim>\<open>Math.random()\<close>.
\<close>

definition handleTrendlineClick ::
  "TimeScale \<Rightarrow> real \<Rightarrow> string \<Rightarrow> Pane \<Rightarrow> int option \<Rightarrow> Point option \<Rightarrow> ChartWidget \<Rightarrow> ChartWidget" where
  "handleTrendlineClick ts now newId pane time point w =
     (case point of
        None \<Rightarrow> w
      | Some pt \<Rightarrow>
          (let priceScale = defaultPriceScale pane
           in case firstValue priceScale of
                None \<Rightarrow> w
              | Some fv \<Rightarrow>
                  (let price = coordinateToPrice priceScale (pt_y pt) fv;
                       timeValue = clickTimeValue ts now time (pt_x pt)
                   in case price of
                        None \<Rightarrow> w
                      | Some pr \<Rightarrow>
                          (case w_trendlineStartPoint w of
                             None \<Rightarrow>
                               (let startPoint = \<lparr>dp_x = pt_x pt, dp_y = pt_y pt,
                                                  dp_time = timeValue, dp_price = pr\<rparr>;
                                    w1 = w\<lparr>w_trendlineStartPoint := Some startPoint\<rparr>
                                in w1\<lparr>model := setTrendlineStartPoint (Some startPoint) (model w1)\<rparr>)
                           | Some startPoint \<Rightarrow>
                               (let endPoint = \<lparr>dp_x = pt_x pt, dp_y = pt_y pt,
                                                dp_time = timeValue, dp_price = pr\<rparr>;
                                    w1 = addTrendline
                                           \<lparr>a_id = newId,
                                            point1 = \<lparr>p_time = dp_time startPoint, p_value = dp_price startPoint\<rparr>,
                                            point2 = \<lparr>p_time = dp_time endPoint, p_value = dp_price endPoint\<rparr>\<rparr> w;
                                    w2 = w1\<lparr>w_isDrawingTrendline := False, w_trendlineStartPoint := None,
                                            w_trendlinePreviewEnd := None\<rparr>;
                                    w3 = w2\<lparr>model := setTrendlinePreviewEnd None
                                                      (setTrendlineStartPoint None
                                                        (setTrendlineDrawingState False (model w2)))\<rparr>;
                                    w4 = setCursorStyle None w3;
                                    w5 = w4\<lparr>model := (model w4)\<lparr>crosshair :=
                                                      (crosshair (model w4))\<lparr>showCenterDot := False\<rparr>\<rparr>\<rparr>;
                                    w6 = (case originalCrosshairMode w5 of
                                            Some mode \<Rightarrow>
                                              (applyOptions_crosshairMode mode w5)\<lparr>originalCrosshairMode := None\<rparr>
                                          | None \<Rightarrow> w5);
                                    w7 = deactivateTrendlineTool w6
                                in fullUpdate w7)))))"

text \<open>\<^verbatim>\<open>ChartWidget._handleFibonacciClick(pane, time, point, event)\<close>\<close>

definition handleFibonacciClick ::
  "TimeScale \<Rightarrow> real \<Rightarrow> string \<Rightarrow> Pane \<Rightarrow> int option \<Rightarrow> Point option \<Rightarrow> ChartWidget \<Rightarrow> ChartWidget" where
  "handleFibonacciClick ts now newId pane time point w =
     (case point of
        None \<Rightarrow> w
      | Some pt \<Rightarrow>
          (let priceScale = defaultPriceScale pane
           in case firstValue priceScale of
                None \<Rightarrow> w
              | Some fv \<Rightarrow>
                  (let price = coordinateToPrice priceScale (pt_y pt) fv;
                       timeValue = clickTimeValue ts now time (pt_x pt)
                   in case price of
                        None \<Rightarrow> w
                      | Some pr \<Rightarrow>
                          (case fibonacciStartPoint w of
                             None \<Rightarrow>
                               w\<lparr>fibonacciStartPoint := Some \<lparr>dp_x = pt_x pt, dp_y = pt_y pt,
                                                              dp_time = timeValue, dp_price = pr\<rparr>\<rparr>
                           | Some startPoint \<Rightarrow>
                               (let endPoint = \<lparr>dp_x = pt_x pt, dp_y = pt_y pt,
                                                dp_time = timeValue, dp_price = pr\<rparr>;
                                    w1 = addFibonacci
                                           \<lparr>a_id = newId,
                                            point1 = \<lparr>p_time = dp_time startPoint, p_value = dp_price startPoint\<rparr>,
                                            point2 = \<lparr>p_time = dp_time endPoint, p_value = dp_price endPoint\<rparr>\<rparr> w;
                                    w2 = w1\<lparr>isDrawingFibonacci := False, fibonacciStartPoint := None,
                                            fibonacciPreviewEnd := None\<rparr>;
                                    w3 = setCursorStyle None w2
                                in deactivateFibonacciTool w3)))))"

text \<open>
  \<^verbatim>\<open>ChartWidget._onPaneWidgetClicked\<close>. Outside the drawing modes the click goes to the
  subscribers of the chart, which are not part of this state.
\<close>

definition onPaneWidgetClicked ::
  "TimeScale \<Rightarrow> real \<Rightarrow> string \<Rightarrow> Pane \<Rightarrow> int option \<Rightarrow> Point option \<Rightarrow> ChartWidget \<Rightarrow> ChartWidget" where
  "onPaneWidgetClicked ts now newId pane time point w =
     (if w_isDrawingTrendline w then
        (if point \<noteq> None then handleTrendlineClick ts now newId pane time point w else w)
      else if isDrawingFibonacci w then
        (if point \<noteq> None then handleFibonacciClick ts now newId pane time point w else w)
      else w)"

section \<open>Hit-testing of trendlines (pane widget)\<close>

definition SELECTION_HIT_TOLERANCE :: real where
  "SELECTION_HIT_TOLERANCE = 8"

definition LINE_HIT_TOLERANCE :: real where
  "LINE_HIT_TOLERANCE = 5"

text \<open>
  A pixel coordinate that a division by zero may have made \<^verbatim>\<open>Infinity\<close> or \<^verbatim>\<open>NaN\<close>: the
  division by \<^verbatim>\<open>timePerPixel\<close> in \<^verbatim>\<open>_forceExtrapolateCoordinate\<close> has no guard. A distance
  computed from such a coordinate is \<^verbatim>\<open>Infinity\<close> or \<^verbatim>\<open>NaN\<close> in turn, here \<open>None\<close>, and
  every comparison with it is false.
\<close>

datatype pixel = NonFinite | Px real

record Coords =
  cx :: pixel
  cy :: real

text \<open>\<^verbatim>\<open>PaneWidget._forceExtrapolateCoordinate\<close>\<close>

definition forceExtrapolateCoordinate ::
  "real \<Rightarrow> real \<Rightarrow> TimeScale \<Rightarrow> PriceScale \<Rightarrow> real \<Rightarrow> Coords option" where
  "forceExtrapolateCoordinate targetTime targetPrice ts priceScale fv =
     (let bi = baseIndex ts;
          prevIndex = bi - 1;
          baseTime = originalTimeAt ts bi;
          baseCoord = indexToCoordinate ts bi;
          prevTime = originalTimeAt ts prevIndex;
          prevCoord = indexToCoordinate ts prevIndex
      in case (baseTime, baseCoord, prevTime, prevCoord) of
           (Some bt, Some bc, Some pt, Some pc) \<Rightarrow>
             (let timeInterval = bt - pt;
                  coordInterval = bc - pc
              in if coordInterval \<noteq> 0
                 then (let timePerPixel = timeInterval / coordInterval;
                           timeBeyondBase = targetTime - bt;
                           x = (if timePerPixel = 0 then NonFinite
                                else Px (bc + timeBeyondBase / timePerPixel))
                       in case priceToCoordinate priceScale targetPrice fv of
                            Some y \<Rightarrow> Some \<lparr>cx = x, cy = y\<rparr>
                          | None \<Rightarrow> None)
                 else None)
         | _ \<Rightarrow> None)"

text \<open>\<^verbatim>\<open>PaneWidget._convertTimeAndPriceToCoordinates\<close>\<close>

definition convertTimeAndPriceToCoordinates ::
  "real \<Rightarrow> real \<Rightarrow> TimeScale \<Rightarrow> PriceScale \<Rightarrow> real \<Rightarrow> Coords option" where
  "convertTimeAndPriceToCoordinates targetTime targetPrice ts priceScale fv =
     (let bi = baseIndex ts;
          baseTime = originalTimeAt ts bi
      in if (case baseTime of None \<Rightarrow> False | Some bt \<Rightarrow> targetTime > bt)
         then forceExtrapolateCoordinate targetTime targetPrice ts priceScale fv
         else (case timeToIndex ts targetTime True of
                 Some index \<Rightarrow>
                   (case (indexToCoordinate ts index, priceToCoordinate priceScale targetPrice fv) of
                      (Some x, Some y) \<Rightarrow> Some \<lparr>cx = Px x, cy = y\<rparr>
                    | _ \<Rightarrow> forceExtrapolateCoordinate targetTime targetPrice ts priceScale fv)
               | None \<Rightarrow> forceExtrapolateCoordinate targetTime targetPrice ts priceScale fv))"

text \<open>
  \<^verbatim>\<open>Math.sqrt(Math.pow(x - c.x, 2) + Math.pow(y - c.y, 2))\<close>, the distance of the click
  to an anchor.
\<close>

definition distanceToPoint :: "real \<Rightarrow> real \<Rightarrow> Coords \<Rightarrow> real option" where
  "distanceToPoint x y c =
     (case cx c of
        NonFinite \<Rightarrow> None
      | Px x1 \<Rightarrow> Some (sqrt ((x - x1)\<^sup>2 + (y - cy c)\<^sup>2)))"

text \<open>\<^verbatim>\<open>PaneWidget._distanceToLine\<close>, on finite coordinates.\<close>

definition distanceToLine :: "real \<Rightarrow> real \<Rightarrow> real \<Rightarrow> real \<Rightarrow> real \<Rightarrow> real \<Rightarrow> real" where
  "distanceToLine px py x1 y1 x2 y2 =
     (let dx = x2 - x1;
          dy = y2 - y1
      in if dx = 0 \<and> dy = 0
         then sqrt ((px - x1)\<^sup>2 + (py - y1)\<^sup>2)
         else (let t = max 0 (min 1 (((px - x1) * dx + (py - y1) * dy) / (dx * dx + dy * dy)));
                   projection_x = x1 + t * dx;
                   projection_y = y1 + t * dy
               in sqrt ((px - projection_x)\<^sup>2 + (py - projection_y)\<^sup>2)))"

definition distanceToSegment :: "real \<Rightarrow> real \<Rightarrow> Coords \<Rightarrow> Coords \<Rightarrow> real option" where
  "distanceToSegment x y c1 c2 =
     (case (cx c1, cx c2) of
        (Px x1, Px x2) \<Rightarrow> Some (distanceToLine x y x1 (cy c1) x2 (cy c2))
      | _ \<Rightarrow> None)"

datatype HitType = HitLine | HitPoint1 | HitPoint2

record TrendlineHitResult =
  trendlineId :: string
  hitType :: HitType
  distance :: real

text \<open>
  \<^verbatim>\<open>if (d <= tolerance && d < closestDistance) { closestHit = ...; closestDistance = d; }\<close>
  on the two variables of the closure, \<open>closestHit\<close> and \<open>closestDistance\<close>; the latter
  starts as \<^verbatim>\<open>Infinity\<close>, here \<open>None\<close>.
\<close>

definition tryHit ::
  "string \<Rightarrow> HitType \<Rightarrow> real option \<Rightarrow> real
     \<Rightarrow> (TrendlineHitResult option \<times> real option) \<Rightarrow> (TrendlineHitResult option \<times> real option)" where
  "tryHit tid ht d tolerance st =
     (case d of
        None \<Rightarrow> st
      | Some dv \<Rightarrow>
          if dv \<le> tolerance \<and> (case snd st of None \<Rightarrow> True | Some closestDistance \<Rightarrow> dv < closestDistance)
          then (Some \<lparr>trendlineId = tid, hitType = ht, distance = dv\<rparr>, Some dv)
          else st)"

text \<open>The body of the \<^verbatim>\<open>forEach\<close> of \<^verbatim>\<open>_hitTestTrendlines\<close>.\<close>

definition hitTestStep ::
  "TimeScale \<Rightarrow> PriceScale \<Rightarrow> real \<Rightarrow> real \<Rightarrow> real \<Rightarrow> (string \<times> Trendline)
     \<Rightarrow> (TrendlineHitResult option \<times> real option) \<Rightarrow> (TrendlineHitResult option \<times> real option)" where
  "hitTestStep ts priceScale fv x y entry st =
     (let tid = fst entry;
          d = tl_data (snd entry);
          coords1 = convertTimeAndPriceToCoordinates (p_time (point1 d)) (p_value (point1 d)) ts priceScale fv;
          coords2 = convertTimeAndPriceToCoordinates (p_time (point2 d)) (p_value (point2 d)) ts priceScale fv
      in case (coords1, coords2) of
           (Some c1, Some c2) \<Rightarrow>
             (let dist1 = distanceToPoint x y c1;
                  st1 = tryHit tid HitPoint1 dist1 SELECTION_HIT_TOLERANCE st;
                  dist2 = distanceToPoint x y c2;
                  st2 = tryHit tid HitPoint2 dist2 SELECTION_HIT_TOLERANCE st1
              in if (case fst st2 of None \<Rightarrow> True | Some closestHit \<Rightarrow> hitType closestHit = HitLine)
                 then (let lineDist = distanceToSegment x y c1 c2
                       in tryHit tid HitLine lineDist LINE_HIT_TOLERANCE st2)
                 else st2)
         | _ \<Rightarrow> st)"

text \<open>
  \<^verbatim>\<open>PaneWidget._hitTestTrendlines(x, y)\<close>; \<open>state\<close> is the pane of the widget,
  \<open>tls\<close> its map of trendlines in the order of insertion, \<open>ts\<close> the time scale of the
  model.
\<close>

definition hitTestTrendlines ::
  "Pane option \<Rightarrow> (string \<times> Trendline) list \<Rightarrow> TimeScale \<Rightarrow> real \<Rightarrow> real \<Rightarrow> TrendlineHitResult option" where
  "hitTestTrendlines state tls ts x y =
     (case state of
        None \<Rightarrow> None
      | Some pane \<Rightarrow>
          if length tls = 0 then None
          else (let priceScale = defaultPriceScale pane
                in case firstValue priceScale of
                     None \<Rightarrow> None
                   | Some fv \<Rightarrow> fst (foldl (\<lambda>st entry. hitTestStep ts priceScale fv x y entry st) (None, None) tls)))"

text \<open>
  A time scale and a pane on which a time is its own pixel and a price is its own pixel:
  a point every unit of time from 0 to 1000, the point of time \<open>t\<close> at the pixel \<open>t\<close>.
  Two trendlines: \<open>lineA\<close> runs from (107, 100) to (207, 100), \<open>lineB\<close> from (101, 0) to
  (101, 200).
\<close>

definition pixelTimeScale :: TimeScale where
  "pixelTimeScale =
     \<lparr>baseIndex = 1000,
      indexToTimeScalePoint = (\<lambda>i. if 0 \<le> i \<and> i \<le> 1000 then Some \<lparr>originalTime = Some (real_of_int i)\<rparr>
                                   else None),
      indexToCoordinate = (\<lambda>i. Some (real_of_int i)),
      timeToIndex = (\<lambda>t exact. if 0 \<le> t \<and> t \<le> 1000 \<and> t = real_of_int \<lfloor>t\<rfloor> then Some \<lfloor>t\<rfloor> else None),
      coordinateToIndex = (\<lambda>x. Some (round x))\<rparr>"

definition pixelPriceScale :: PriceScale where
  "pixelPriceScale =
     \<lparr>ps_options = \<lparr>autoScale = True, ps_visible = True\<rparr>, firstValue = Some 1,
      coordinateToPrice = (\<lambda>y fv. Some y), priceToCoordinate = (\<lambda>p fv. Some p)\<rparr>"

definition pixelPane :: Pane where
  "pixelPane = (newPane 0)\<lparr>rightPriceScale := pixelPriceScale\<rparr>"

definition lineA :: "string \<times> Trendline" where
  "lineA = (''A'', newTrendline \<lparr>a_id = ''A'', point1 = \<lparr>p_time = 107, p_value = 100\<rparr>,
                                point2 = \<lparr>p_time = 207, p_value = 100\<rparr>\<rparr>)"

definition lineB :: "string \<times> Trendline" where
  "lineB = (''B'', newTrendline \<lparr>a_id = ''B'', point1 = \<lparr>p_time = 101, p_value = 0\<rparr>,
                                point2 = \<lparr>p_time = 101, p_value = 200\<rparr>\<rparr>)"

text \<open>
  Charts in drawing mode, on the time scale of scenario A and the pane whose prices are
  pixels: \<open>trendlineChart\<close> after the trendline tool is switched on, \<open>trendlineChart1\<close>
  after a first click at the pixel (15, 50), which comes with the index 0;
  \<open>fibonacciChart\<close> after the Fibonacci tool is switched on.
\<close>

definition trendlineChart :: ChartWidget where
  "trendlineChart = onTrendlineToolToggle True chart1"

definition trendlineChart1 :: ChartWidget where
  "trendlineChart1 =
     onPaneWidgetClicked scenarioTimeScale 0 ''t0'' pixelPane (Some 0) (Some \<lparr>pt_x = 15, pt_y = 50\<rparr>) trendlineChart"

definition fibonacciChart :: ChartWidget where
  "fibonacciChart = onFibonacciToolToggle True chart1"

section \<open>Fibonacci levels\<close>

lemma calculateLevels_uptrend:
  assumes "p_value (point2 (fib_data f)) > p_value (point1 (fib_data f))"
  shows "calculateLevels f =
           map (\<lambda>level. (level, p_value (point2 (fib_data f))
                               - (p_value (point2 (fib_data f)) - p_value (point1 (fib_data f))) * level))
               (levels (fib_options f))"
  using assms by (simp add: calculateLevels_def Let_def)

lemma calculateLevels_downtrend:
  assumes "\<not> p_value (point2 (fib_data f)) > p_value (point1 (fib_data f))"
  shows "calculateLevels f =
           map (\<lambda>level. (level, p_value (point1 (fib_data f))
                               + (p_value (point1 (fib_data f)) - p_value (point2 (fib_data f))) * level))
               (levels (fib_options f))"
  using assms by (simp add: calculateLevels_def Let_def)

text \<open>
  C1. The claim puts the base of a downtrend at the lower anchor. The code takes
  \<open>point1\<close> there, which is the higher one. For the retracement from 200 down to 100 with
  the default levels the code returns the prices 200 up to 300; the claim's formula,
  lower anchor plus range times level, gives 100 up to 200, and the two differ at every
  level.
\<close>

theorem calculateLevels_downtrend_base_is_higher_anchor:
  "calculateLevels (newFibonacciRetracement
       \<lparr>a_id = ''fib'', point1 = \<lparr>p_time = 1, p_value = 200\<rparr>,
        point2 = \<lparr>p_time = 2, p_value = 100\<rparr>\<rparr> None)
     = [(0, 200), (0.236, 223.6), (0.382, 238.2), (0.5, 250), (0.618, 261.8), (0.786, 278.6), (1, 300)]
   \<and> map (\<lambda>level. (level, min (200::real) 100 + \<bar>100 - 200\<bar> * level))
         (levels defaultFibonacciOptions)
     = [(0, 100), (0.236, 123.6), (0.382, 138.2), (0.5, 150), (0.618, 161.8), (0.786, 178.6), (1, 200)]"
  by (simp add: calculateLevels_def newFibonacciRetracement_def defaultFibonacciOptions_def Let_def)

section \<open>Extrapolation\<close>

lemma extrapolate_main_path_agree:
  assumes "originalTimeAt ts (baseIndex ts) = Some bt"
      and "indexToCoordinate ts (baseIndex ts) = Some bc"
      and "originalTimeAt ts (baseIndex ts - 1) = Some pt"
      and "indexToCoordinate ts (baseIndex ts - 1) = Some pc"
      and "bc \<noteq> pc"
  shows "ChartWidget_extrapolateTimeFromCoordinate ts now x = bt + (x - bc) * ((bt - pt) / (bc - pc))"
    and "PaneWidget_extrapolateTimeFromCoordinate x ts now = bt + (x - bc) * ((bt - pt) / (bc - pc))"
  using assms
  by (simp_all add: ChartWidget_extrapolateTimeFromCoordinate_def
        PaneWidget_extrapolateTimeFromCoordinate_def Let_def)

text \<open>
  C6. Scenario A: the last two points have the times 100 and 200 at the pixels 10 and
  20; a click at x = 30 extrapolates to the time 300, whatever the clock says.
\<close>

theorem extrapolate_scenario_A:
  "ChartWidget_extrapolateTimeFromCoordinate scenarioTimeScale now 30 = 300"
  by (simp add: ChartWidget_extrapolateTimeFromCoordinate_def scenarioTimeScale_def
        originalTimeAt_def Let_def)

text \<open>
  C3. The two extrapolation functions do not agree when fewer than two reference points
  are there. On the time scale with one point, at x = 100 and the clock at 1000000 ms,
  the function of the chart widget returns 1000 + 100 * 864 = 87400 and the function of
  the pane widget returns 1000.
\<close>

theorem extrapolate_fallbacks_differ:
  "ChartWidget_extrapolateTimeFromCoordinate onePointTimeScale 1000000 100 = 87400
   \<and> PaneWidget_extrapolateTimeFromCoordinate 100 onePointTimeScale 1000000 = 1000"
  by (simp add: ChartWidget_extrapolateTimeFromCoordinate_def
        PaneWidget_extrapolateTimeFromCoordinate_def onePointTimeScale_def
        originalTimeAt_def Let_def)

section \<open>One frame callback at a time\<close>

lemma invalidate_planned:
  "drawPlanned w \<Longrightarrow> invalidate m w =
     w\<lparr>invalidateMask := Some (case invalidateMask w of None \<Rightarrow> m | Some pending \<Rightarrow> mask_merge pending m)\<rparr>"
  by (simp add: invalidate_def invalidateHandler_def Let_def split: option.splits)

lemma invalidate_plans: "drawPlanned (invalidate m w)"
  by (simp add: invalidate_def invalidateHandler_def Let_def split: option.splits)

lemma invalidate_rafRequests:
  "rafRequests (invalidate m w) = (if drawPlanned w then rafRequests w else Suc (rafRequests w))"
  by (simp add: invalidate_def invalidateHandler_def Let_def split: option.splits)

lemma invalidateAll_planned:
  "drawPlanned w \<Longrightarrow> invalidateAll ms w = w\<lparr>invalidateMask := mergeAll (invalidateMask w) ms\<rparr>"
proof (induction ms arbitrary: w)
  case Nil
  then show ?case by simp
next
  case (Cons m ms)
  have p: "drawPlanned (invalidate m w)"
    by (rule invalidate_plans)
  show ?case
    using Cons.IH [OF p] Cons.prems by (simp add: invalidate_planned)
qed

lemma invalidate_fields:
  "model (invalidate m w) = model w"
  "w_trendlineStartPoint (invalidate m w) = w_trendlineStartPoint w"
  "w_trendlinePreviewEnd (invalidate m w) = w_trendlinePreviewEnd w"
  "w_isDrawingTrendline (invalidate m w) = w_isDrawingTrendline w"
  "originalCrosshairMode (invalidate m w) = originalCrosshairMode w"
  "cursorStyleOverride (invalidate m w) = cursorStyleOverride w"
  "toolbarWidget (invalidate m w) = toolbarWidget w"
  "isDrawingFibonacci (invalidate m w) = isDrawingFibonacci w"
  "fibonacciStartPoint (invalidate m w) = fibonacciStartPoint w"
  "fibonacciPreviewEnd (invalidate m w) = fibonacciPreviewEnd w"
  by (simp_all add: invalidate_def invalidateHandler_def Let_def split: option.splits)

lemma fullUpdate_fields:
  "model (fullUpdate w) = model w"
  "w_trendlineStartPoint (fullUpdate w) = w_trendlineStartPoint w"
  "w_trendlinePreviewEnd (fullUpdate w) = w_trendlinePreviewEnd w"
  "w_isDrawingTrendline (fullUpdate w) = w_isDrawingTrendline w"
  "originalCrosshairMode (fullUpdate w) = originalCrosshairMode w"
  "cursorStyleOverride (fullUpdate w) = cursorStyleOverride w"
  "toolbarWidget (fullUpdate w) = toolbarWidget w"
  "isDrawingFibonacci (fullUpdate w) = isDrawingFibonacci w"
  "fibonacciStartPoint (fullUpdate w) = fibonacciStartPoint w"
  "fibonacciPreviewEnd (fullUpdate w) = fibonacciPreviewEnd w"
  by (simp_all add: fullUpdate_def invalidate_fields)

lemma lightUpdate_model: "model (lightUpdate w) = model w"
  by (simp add: lightUpdate_def invalidate_fields)

text \<open>
  C2. While the draw-planned flag is set, a run of mutations with the masks \<open>ms\<close> changes
  the pending mask only, to the merge of the masks into it, and requests no frame: the
  flag, the handle and the count of requests stay. Two calls of \<open>fullUpdate\<close> in a row
  request exactly one frame when none was planned, and never more than one.
\<close>

theorem one_frame_callback_in_flight:
  "(drawPlanned w \<longrightarrow> invalidateAll ms w = w\<lparr>invalidateMask := mergeAll (invalidateMask w) ms\<rparr>)
   \<and> (\<not> drawPlanned w \<longrightarrow> rafRequests (fullUpdate (fullUpdate w)) = Suc (rafRequests w))
   \<and> rafRequests (fullUpdate (fullUpdate w)) \<le> Suc (rafRequests w)"
  by (simp add: invalidateAll_planned fullUpdate_def invalidate_rafRequests invalidate_plans)

section \<open>The trendline tool, switched on and off\<close>

lemma applyOptions_crosshairMode_fields:
  "model (applyOptions_crosshairMode k w) = (model w)\<lparr>crosshairMode := k\<rparr>"
  "w_trendlineStartPoint (applyOptions_crosshairMode k w) = w_trendlineStartPoint w"
  "w_trendlinePreviewEnd (applyOptions_crosshairMode k w) = w_trendlinePreviewEnd w"
  "w_isDrawingTrendline (applyOptions_crosshairMode k w) = w_isDrawingTrendline w"
  "originalCrosshairMode (applyOptions_crosshairMode k w) = originalCrosshairMode w"
  by (simp_all add: applyOptions_crosshairMode_def fullUpdate_fields)

lemma toggle_on:
  "model (onTrendlineToolToggle True w) =
     (model w)\<lparr>isDrawingTrendline := True,
               crosshair := (crosshair (model w))\<lparr>c_visible := True, showCenterDot := True\<rparr>,
               crosshairMode := 0\<rparr>"
  "originalCrosshairMode (onTrendlineToolToggle True w) = Some (crosshairMode (model w))"
  by (simp_all add: onTrendlineToolToggle_def Let_def setTrendlineDrawingState_def
        setCursorStyle_def getLastMousePosition_def fullUpdate_fields applyOptions_crosshairMode_fields)

lemma toggle_off:
  "originalCrosshairMode w = Some k \<Longrightarrow> model (onTrendlineToolToggle False w) =
     (model w)\<lparr>isDrawingTrendline := False, trendlineStartPoint := None, trendlinePreviewEnd := None,
               crosshair := (crosshair (model w))\<lparr>showCenterDot := False\<rparr>,
               crosshairMode := k\<rparr>"
  "originalCrosshairMode w = Some k \<Longrightarrow> originalCrosshairMode (onTrendlineToolToggle False w) = None"
  by (simp_all add: onTrendlineToolToggle_def Let_def setTrendlineDrawingState_def
        setCursorStyle_def fullUpdate_fields applyOptions_crosshairMode_fields split: option.splits)

lemma toggle_off_widget:
  "w_trendlineStartPoint (onTrendlineToolToggle False w) = None"
  "w_trendlinePreviewEnd (onTrendlineToolToggle False w) = None"
  "w_isDrawingTrendline (onTrendlineToolToggle False w) = False"
  by (simp_all add: onTrendlineToolToggle_def Let_def setTrendlineDrawingState_def
        setCursorStyle_def fullUpdate_fields applyOptions_crosshairMode_fields split: option.splits)

text \<open>
  C7. From any state of the chart, switching the trendline tool on and then off leaves
  the trendlines as they were, of the current symbol and of every other; the start
  anchor and the preview are \<open>None\<close> in the widget and in the model, neither is in drawing
  mode; the center dot of the crosshair is off, the crosshair mode is the one from before
  the tool was switched on, and no saved mode is left.
\<close>

theorem trendline_tool_on_off:
  "getCurrentSymbolTrendlines (model (onTrendlineToolToggle False (onTrendlineToolToggle True w)))
     = getCurrentSymbolTrendlines (model w)
   \<and> trendlines (model (onTrendlineToolToggle False (onTrendlineToolToggle True w))) = trendlines (model w)
   \<and> trendlinesBySymbol (model (onTrendlineToolToggle False (onTrendlineToolToggle True w)))
     = trendlinesBySymbol (model w)
   \<and> fibonacciRetracements (model (onTrendlineToolToggle False (onTrendlineToolToggle True w)))
     = fibonacciRetracements (model w)
   \<and> fibonacciBySymbol (model (onTrendlineToolToggle False (onTrendlineToolToggle True w)))
     = fibonacciBySymbol (model w)
   \<and> w_trendlineStartPoint (onTrendlineToolToggle False (onTrendlineToolToggle True w)) = None
   \<and> w_trendlinePreviewEnd (onTrendlineToolToggle False (onTrendlineToolToggle True w)) = None
   \<and> trendlineStartPoint (model (onTrendlineToolToggle False (onTrendlineToolToggle True w))) = None
   \<and> trendlinePreviewEnd (model (onTrendlineToolToggle False (onTrendlineToolToggle True w))) = None
   \<and> w_isDrawingTrendline (onTrendlineToolToggle False (onTrendlineToolToggle True w)) = False
   \<and> isDrawingTrendline (model (onTrendlineToolToggle False (onTrendlineToolToggle True w))) = False
   \<and> showCenterDot (crosshair (model (onTrendlineToolToggle False (onTrendlineToolToggle True w)))) = False
   \<and> crosshairMode (model (onTrendlineToolToggle False (onTrendlineToolToggle True w)))
     = crosshairMode (model w)
   \<and> originalCrosshairMode (onTrendlineToolToggle False (onTrendlineToolToggle True w)) = None"
  by (simp add: toggle_off [OF toggle_on(2)] toggle_off_widget toggle_on(1) getCurrentSymbolTrendlines_def)

section \<open>The list of panes is never empty\<close>

lemma length_splice1: "length (splice1 i xs) \<ge> length xs - 1"
  by (auto simp add: splice1_def Let_def)

lemma splice1_nonempty: "length xs > 1 \<Longrightarrow> splice1 i xs \<noteq> []"
  using length_splice1 [of xs i] by (cases "splice1 i xs") auto

lemma panes_setPanes: "panes (model (setPanes ps w)) = ps"
  by (simp add: setPanes_def)

lemma length_panes_storePane: "length (panes (model (storePane p w))) = length (panes (model w))"
  by (simp add: storePane_def setPanes_def)

lemma panes_storePane_nonempty: "panes (model (storePane p w)) = [] \<longleftrightarrow> panes (model w) = []"
  by (simp add: storePane_def setPanes_def)

lemma cleanup_nonempty:
  "panes (model w) \<noteq> [] \<Longrightarrow> panes (model (cleanupIfPaneIsEmpty p w)) \<noteq> []"
  by (simp add: cleanupIfPaneIsEmpty_def fullUpdate_fields panes_setPanes splice1_nonempty)

lemma removeSeries_nonempty:
  "panes (model w) \<noteq> [] \<Longrightarrow> panes (model (stateOf (removeSeries env s w))) \<noteq> []"
  by (auto simp add: removeSeries_def Let_def panes_storePane_nonempty storePane_def setPanes_def
      intro!: cleanup_nonempty split: option.splits)

lemma removeSeriesAll_nonempty:
  "panes (model w) \<noteq> [] \<Longrightarrow> panes (model (stateOf (removeSeriesAll env ss w))) \<noteq> []"
proof (induction ss arbitrary: w)
  case Nil
  then show ?case by simp
next
  case (Cons s ss)
  have n: "panes (model (stateOf (removeSeries env s w))) \<noteq> []"
    using Cons.prems by (rule removeSeries_nonempty)
  show ?case
  proof (cases "removeSeries env s w")
    case (Returned u w1)
    with n have "panes (model w1) \<noteq> []" by simp
    from Cons.IH [OF this] Returned show ?thesis by simp
  next
    case (Threw e w1)
    with n show ?thesis by simp
  qed
qed

lemma removePane_nonempty:
  "panes (model w) \<noteq> [] \<Longrightarrow> panes (model (stateOf (removePane env i w))) \<noteq> []"
proof -
  assume n: "panes (model w) \<noteq> []"
  have "length (panes (model w)) \<noteq> 1 \<Longrightarrow> length (panes (model w)) > 1"
    using n by (cases "panes (model w)") auto
  then show ?thesis
    using n by (simp add: removePane_def fullUpdate_fields panes_setPanes splice1_nonempty)
qed

lemma deletePaneById_guard:
  "i = 0 \<or> i < 0 \<or> i \<ge> int (length (panes (model w))) \<Longrightarrow> deletePaneById env i w = Returned () w"
  by (auto simp add: deletePaneById_def)

lemma deletePaneById_nonempty:
  assumes n: "panes (model w) \<noteq> []"
  shows "panes (model (stateOf (deletePaneById env i w))) \<noteq> []"
proof (cases "i = 0 \<or> i < 0 \<or> i \<ge> int (length (panes (model w)))")
  case True
  then show ?thesis using n by (simp add: deletePaneById_guard)
next
  case False
  then obtain pane where p: "at_index (panes (model w)) i = Some pane"
    by (auto simp add: at_index_def)
  have a: "panes (model (stateOf (removeSeriesAll env (dataSources pane) w))) \<noteq> []"
    using n by (rule removeSeriesAll_nonempty)
  show ?thesis
  proof (cases "removeSeriesAll env (dataSources pane) w")
    case (Threw e w1)
    with a False p show ?thesis by (simp add: deletePaneById_def)
  next
    case (Returned u w1)
    with a have n1: "panes (model w1) \<noteq> []" by simp
    let ?w2 = "w1\<lparr>model := (model w1)\<lparr>paneDataMap := map_delete i (paneDataMap (model w1))\<rparr>\<rparr>"
    have n2: "panes (model ?w2) \<noteq> []" using n1 by simp
    have n3: "panes (model (stateOf (removePane env i ?w2))) \<noteq> []"
      using n2 by (rule removePane_nonempty)
    show ?thesis
      using Returned n3 False p
      by (cases "removePane env i ?w2") (simp_all add: deletePaneById_def Let_def fullUpdate_fields)
  qed
qed

lemma getOrCreatePane_nonempty:
  "panes (model w) \<noteq> [] \<Longrightarrow> panes (model (stateOf (getOrCreatePane env i w))) \<noteq> []"
  by (simp add: getOrCreatePane_def Let_def invalidate_fields)

lemma getOrCreatePane_zero:
  "panes (model (stateOf (getOrCreatePane env 0 w))) \<noteq> []"
  by (simp add: getOrCreatePane_def Let_def invalidate_fields assertFails_def)

lemma newChartWidget_nonempty:
  "panes (model (stateOf (newChartWidget env mode lo ro stored))) \<noteq> []"
proof -
  have z: "panes (model (stateOf (getOrCreatePane env 0 (emptyChartWidget mode lo ro)))) \<noteq> []"
    by (rule getOrCreatePane_zero)
  have "panes (model (stateOf (newChartModel env stored (emptyChartWidget mode lo ro)))) \<noteq> []"
    using z unfolding newChartModel_def
    by (cases "getOrCreatePane env 0 (emptyChartWidget mode lo ro)")
       (auto simp add: Let_def panes_storePane_nonempty split: option.splits)
  then show ?thesis
    unfolding newChartWidget_def
    by (cases "newChartModel env stored (emptyChartWidget mode lo ro)") simp_all
qed

lemma newChartWidget_returns:
  "\<not> hasThrown (newChartWidget env mode lo ro stored)"
  by (simp add: newChartWidget_def newChartModel_def getOrCreatePane_def assertFails_def Let_def
      emptyChartWidget_def emptyChartModel_def)

lemma moveSeriesToPane_nonempty:
  assumes n: "panes (model w) \<noteq> []"
  shows "panes (model (stateOf (moveSeriesToPane env s i w))) \<noteq> []"
proof (cases "paneForSource (model w) s")
  case None
  then show ?thesis using n by (simp add: moveSeriesToPane_def)
next
  case (Some previousPane)
  let ?p1 = "previousPane\<lparr>dataSources := remove1 s (dataSources previousPane)\<rparr>"
  let ?w1 = "storePane ?p1 w"
  have n1: "panes (model ?w1) \<noteq> []" using n by (simp add: panes_storePane_nonempty)
  have g: "panes (model (stateOf (getOrCreatePane env i ?w1))) \<noteq> []"
    using n1 by (rule getOrCreatePane_nonempty)
  show ?thesis
  proof (cases "getOrCreatePane env i ?w1")
    case (Threw e w2)
    with g Some n show ?thesis by (simp add: moveSeriesToPane_def Let_def)
  next
    case (Returned r w2)
    with g have n2: "panes (model w2) \<noteq> []" by simp
    show ?thesis
    proof (cases r)
      case None
      with Returned n2 Some n show ?thesis by (simp add: moveSeriesToPane_def Let_def)
    next
      case (Some pane)
      let ?w3 = "storePane (pane\<lparr>dataSources := dataSources pane @ [s]\<rparr>) w2"
      have n3: "panes (model ?w3) \<noteq> []" using n2 by (simp add: panes_storePane_nonempty)
      show ?thesis
        using Returned Some \<open>paneForSource (model w) s = Some previousPane\<close> n n3
        by (simp add: moveSeriesToPane_def Let_def cleanup_nonempty)
    qed
  qed
qed

lemma removePane_single:
  "length (panes (model w)) = 1 \<Longrightarrow> removePane env i w = Returned () w"
  by (simp add: removePane_def)

lemma cleanup_single:
  "length (panes (model w)) \<le> 1 \<Longrightarrow> cleanupIfPaneIsEmpty p w = w"
  by (simp add: cleanupIfPaneIsEmpty_def)

lemma getOrCreatePane_new:
  "i \<ge> int (length (panes (model w))) \<Longrightarrow>
   getOrCreatePane env i w =
     Returned (Some (newPane (nextPaneUid (model w))))
       (invalidate (invalidatePane (int (length (panes (model w)))) \<lparr>pi_level = LevelNone, pi_autoScale = True\<rparr> mask_full)
          (w\<lparr>model := (model w)\<lparr>panes := panes (model w) @ [newPane (nextPaneUid (model w))],
                                       nextPaneUid := Suc (nextPaneUid (model w))\<rparr>\<rparr>))"
  by (simp add: getOrCreatePane_def assertFails_def Let_def min_def)

lemma getOrCreatePane_old:
  "0 \<le> i \<Longrightarrow> i < int (length (panes (model w))) \<Longrightarrow>
   getOrCreatePane env i w = Returned (Some (panes (model w) ! nat i)) w"
  by (simp add: getOrCreatePane_def assertFails_def Let_def min_def at_index_def)

lemma chart1_panes: "panes (model chart1) = [(newPane 0)\<lparr>stretchFactor := 2000\<rparr>]"
  by (simp add: chart1_def newChartWidget_def newChartModel_def getOrCreatePane_def assertFails_def
      emptyChartWidget_def emptyChartModel_def Let_def invalidate_fields storePane_def setPanes_def
      devEnv_def newPane_def)

lemma chart1_nextPaneUid: "nextPaneUid (model chart1) = 1"
  by (simp add: chart1_def newChartWidget_def newChartModel_def getOrCreatePane_def assertFails_def
      emptyChartWidget_def emptyChartModel_def Let_def invalidate_fields storePane_def setPanes_def
      devEnv_def newPane_def)

lemma chart1_planned: "drawPlanned chart1"
  by (simp add: chart1_def newChartWidget_def newChartModel_def getOrCreatePane_def assertFails_def
      emptyChartWidget_def emptyChartModel_def Let_def invalidate_plans storePane_def setPanes_def
      devEnv_def newPane_def)

lemma chart1_rafRequests: "rafRequests chart1 = 1"
  by (simp add: chart1_def newChartWidget_def newChartModel_def getOrCreatePane_def assertFails_def
      emptyChartWidget_def emptyChartModel_def Let_def invalidate_rafRequests storePane_def setPanes_def
      devEnv_def newPane_def)

lemma chart2_panes:
  "panes (model chart2) = [(newPane 0)\<lparr>stretchFactor := 2000\<rparr>, (newPane 1)\<lparr>stretchFactor := 1000\<rparr>]"
  by (simp add: chart2_def addPane_def getOrCreatePane_new chart1_panes chart1_nextPaneUid
      Let_def invalidate_fields fullUpdate_fields storePane_def setPanes_def devEnv_def newPane_def)

lemma chart3_panes:
  "panes (model chart3) = [(newPane 0)\<lparr>stretchFactor := 2000\<rparr>, (newPane 1)\<lparr>stretchFactor := 1000, dataSources := [7]\<rparr>]"
  by (simp add: chart3_def addSeriesToPane_def getOrCreatePane_old chart2_panes
      Let_def fullUpdate_fields lightUpdate_model storePane_def setPanes_def newPane_def)

lemma at_index_None: "at_index xs i = None \<longleftrightarrow> i < 0 \<or> i \<ge> int (length xs)"
  by (auto simp add: at_index_def)

text \<open>
  C10. The list of panes is not empty after the construction of the chart, and an
  operation that removes panes leaves it non-empty, whether it returns or throws:
  \<open>removePane\<close>, \<open>deletePaneById\<close>, the cleanup of an empty pane, and the two operations
  that run the cleanup, \<open>removeSeries\<close> and \<open>moveSeriesToPane\<close>. With one pane
  \<open>removePane\<close> returns the chart as it is; \<open>deletePaneById\<close> returns the chart as it is
  for the index 0 and for an index out of range; the cleanup changes nothing unless
  there is more than one pane.
\<close>

theorem panes_never_empty:
  "panes (model (stateOf (newChartWidget env mode lo ro stored))) \<noteq> []
   \<and> (panes (model w) \<noteq> [] \<longrightarrow>
         panes (model (stateOf (removePane env i w))) \<noteq> []
       \<and> panes (model (stateOf (deletePaneById env i w))) \<noteq> []
       \<and> panes (model (cleanupIfPaneIsEmpty p w)) \<noteq> []
       \<and> panes (model (stateOf (removeSeries env s w))) \<noteq> []
       \<and> panes (model (stateOf (moveSeriesToPane env s i w))) \<noteq> [])
   \<and> (length (panes (model w)) = 1 \<longrightarrow> removePane env i w = Returned () w)
   \<and> (i = 0 \<or> i < 0 \<or> i \<ge> int (length (panes (model w))) \<longrightarrow> deletePaneById env i w = Returned () w)
   \<and> (length (panes (model w)) \<le> 1 \<longrightarrow> cleanupIfPaneIsEmpty p w = w)"
  by (simp add: newChartWidget_nonempty removePane_nonempty deletePaneById_nonempty cleanup_nonempty
    removeSeries_nonempty moveSeriesToPane_nonempty removePane_single deletePaneById_guard
    cleanup_single)

theorem panes_never_empty_witness:
  "panes (model chart1) \<noteq> []
   \<and> panes (model chart3) \<noteq> []
   \<and> panes (model (stateOf (removePane devEnv 1 chart3))) \<noteq> []
   \<and> panes (model (stateOf (deletePaneById devEnv 1 chart3))) \<noteq> []
   \<and> panes (model (cleanupIfPaneIsEmpty (newPane 1) chart3)) \<noteq> []
   \<and> panes (model (stateOf (removeSeries devEnv 7 chart3))) \<noteq> []
   \<and> panes (model (stateOf (moveSeriesToPane devEnv 7 1 chart3))) \<noteq> []
   \<and> length (panes (model chart1)) = 1
   \<and> removePane devEnv 5 chart1 = Returned () chart1
   \<and> deletePaneById devEnv 5 chart1 = Returned () chart1
   \<and> cleanupIfPaneIsEmpty (newPane 1) chart1 = chart1"
  using panes_never_empty [of devEnv 1 demoScaleOptions demoScaleOptions "[]" chart3 1 "newPane 1" 7]
        panes_never_empty [of devEnv 1 demoScaleOptions demoScaleOptions "[]" chart1 5 "newPane 1" 7]
  by (simp add: chart1_panes chart3_panes)

section \<open>A pane index out of range\<close>

text \<open>
  C9, as the code has it. For a pane index out of range, \<open>applyPriceScaleOptions\<close> throws
  an error that carries the index in a development build and returns the chart unchanged
  in a production build. \<open>deletePaneById\<close> returns the chart unchanged in every build.
  \<open>removePane\<close> returns the chart unchanged when there is one pane; with more panes it
  fails its assertion, the chart unchanged, in every build whose assertions throw.
\<close>

theorem out_of_range_pane_index:
  assumes "at_index (panes (model w)) i = None"
  shows "applyPriceScaleOptions env psid opts i w =
           (if nodeEnv env = Development then Threw (IncorrectPaneIndex i) w else Returned () w)
       \<and> deletePaneById env i w = Returned () w
       \<and> (length (panes (model w)) = 1 \<longrightarrow> removePane env i w = Returned () w)
       \<and> (length (panes (model w)) \<noteq> 1 \<and> assertsEnabled env \<longrightarrow>
            removePane env i w = Threw (AssertionFailed ''Invalid pane index'') w)"
proof -
  have r: "i < 0 \<or> i \<ge> int (length (panes (model w)))"
    using assms by (simp add: at_index_None)
  have a: "applyPriceScaleOptions env psid opts i w =
           (if nodeEnv env = Development then Threw (IncorrectPaneIndex i) w else Returned () w)"
    using assms by (simp add: applyPriceScaleOptions_def)
  have d: "deletePaneById env i w = Returned () w"
    using r by (simp add: deletePaneById_guard)
  have p: "length (panes (model w)) \<noteq> 1 \<and> assertsEnabled env \<longrightarrow>
            removePane env i w = Threw (AssertionFailed ''Invalid pane index'') w"
    using r by (auto simp add: removePane_def assertFails_def)
  show ?thesis
    using a d p by (simp add: removePane_single)
qed

theorem out_of_range_pane_index_witness:
  "at_index (panes (model chart1)) 5 = None
   \<and> applyPriceScaleOptions devEnv ''right'' (\<lambda>q. q\<lparr>autoScale := False\<rparr>) 5 chart1 = Threw (IncorrectPaneIndex 5) chart1
   \<and> applyPriceScaleOptions prodEnv ''right'' (\<lambda>q. q\<lparr>autoScale := False\<rparr>) 5 chart1 = Returned () chart1
   \<and> deletePaneById prodEnv 5 chart1 = Returned () chart1
   \<and> removePane prodEnv 5 chart1 = Returned () chart1
   \<and> at_index (panes (model chart2)) (- 1) = None
   \<and> removePane devEnv (- 1) chart2 = Threw (AssertionFailed ''Invalid pane index'') chart2"
  using out_of_range_pane_index [of chart1 5 devEnv "''right''" "\<lambda>q. q\<lparr>autoScale := False\<rparr>"]
        out_of_range_pane_index [of chart1 5 prodEnv "''right''" "\<lambda>q. q\<lparr>autoScale := False\<rparr>"]
        out_of_range_pane_index [of chart2 "- 1" devEnv "''right''" "\<lambda>q. q\<lparr>autoScale := False\<rparr>"]
  by (simp add: chart1_panes chart2_panes at_index_def devEnv_def prodEnv_def)

text \<open>
  In a development build, on a chart with one pane, \<open>deletePaneById\<close> and \<open>removePane\<close>
  return for the index 5: nothing is thrown.
\<close>

theorem deletePaneById_development_returns:
  "nodeEnv devEnv = Development
   \<and> at_index (panes (model chart1)) 5 = None
   \<and> deletePaneById devEnv 5 chart1 = Returned () chart1
   \<and> removePane devEnv 5 chart1 = Returned () chart1"
  by (simp add: deletePaneById_def removePane_def chart1_panes at_index_def devEnv_def)

section \<open>The price-scale API before there is data\<close>

text \<open>
  C8. When the model finds the price scale of the API object and the \<open>firstValue\<close> of
  that scale is \<open>None\<close>, \<open>coordinateToPrice\<close> and \<open>priceToCoordinate\<close> return \<open>NaN\<close>, for every
  coordinate and every price; they return, nothing is thrown.
\<close>

theorem price_scale_api_not_ready:
  assumes "findPriceScale m (api_priceScaleId api) (api_paneIndex api) = Some (pane, ps)"
      and "firstValue ps = None"
  shows "PriceScaleApi_coordinateToPrice api m y = Inr NaN
       \<and> PriceScaleApi_priceToCoordinate api m p = Inr NaN"
  using assms
  by (simp add: PriceScaleApi_coordinateToPrice_def PriceScaleApi_priceToCoordinate_def
        PriceScaleApi_priceScale_def)

theorem price_scale_api_not_ready_witness:
  "findPriceScale (model chart1) ''right'' 0 = Some ((newPane 0)\<lparr>stretchFactor := 2000\<rparr>, emptyPriceScale)
   \<and> firstValue emptyPriceScale = None
   \<and> PriceScaleApi_coordinateToPrice \<lparr>api_priceScaleId = ''right'', api_paneIndex = 0\<rparr> (model chart1) 120 = Inr NaN
   \<and> PriceScaleApi_priceToCoordinate \<lparr>api_priceScaleId = ''right'', api_paneIndex = 0\<rparr> (model chart1) 50 = Inr NaN"
proof -
  have f: "findPriceScale (model chart1) ''right'' 0 = Some ((newPane 0)\<lparr>stretchFactor := 2000\<rparr>, emptyPriceScale)"
    by (simp add: findPriceScale_def chart1_panes at_index_def priceScaleById_def newPane_def)
  have v: "firstValue emptyPriceScale = None"
    by (simp add: emptyPriceScale_def)
  show ?thesis
    using f v price_scale_api_not_ready [of "model chart1" "\<lparr>api_priceScaleId = ''right'', api_paneIndex = 0\<rparr>"
      "(newPane 0)\<lparr>stretchFactor := 2000\<rparr>" emptyPriceScale 120 50]
    by simp
qed

text \<open>
  The theorem on frame callbacks at work: on the new chart, whose frame is planned, and
  on a widget with no frame planned.
\<close>

theorem one_frame_callback_in_flight_witness:
  "drawPlanned chart1
   \<and> invalidateAll [mask_full, mask_light] chart1
       = chart1\<lparr>invalidateMask := mergeAll (invalidateMask chart1) [mask_full, mask_light]\<rparr>
   \<and> rafRequests (invalidateAll [mask_full, mask_light] chart1) = 1
   \<and> drawPlanned (emptyChartWidget 1 demoScaleOptions demoScaleOptions) = False
   \<and> rafRequests (fullUpdate (fullUpdate (emptyChartWidget 1 demoScaleOptions demoScaleOptions))) = 1"
  using one_frame_callback_in_flight [of chart1 "[mask_full, mask_light]"]
        one_frame_callback_in_flight [of "emptyChartWidget 1 demoScaleOptions demoScaleOptions" "[]"]
  by (simp add: chart1_planned chart1_rafRequests emptyChartWidget_def)

section \<open>Hit-testing depends on the order of the candidates\<close>

lemma sqrt49: "sqrt 49 = 7"
  by (rule real_sqrt_unique) simp_all

lemma conv_pixel:
  "0 \<le> k \<Longrightarrow> k \<le> 1000 \<Longrightarrow>
   convertTimeAndPriceToCoordinates (real_of_int k) p pixelTimeScale pixelPriceScale 1 = Some \<lparr>cx = Px (real_of_int k), cy = p\<rparr>"
  by (simp add: convertTimeAndPriceToCoordinates_def pixelTimeScale_def pixelPriceScale_def originalTimeAt_def Let_def)

lemma sqrt10001: "\<not> sqrt 10001 \<le> 8"
proof -
  have "(8::real)\<^sup>2 < 10001" by simp
  then have "8 < sqrt 10001" by (rule real_less_rsqrt)
  then show ?thesis by simp
qed

lemma sqrt11449: "\<not> sqrt 11449 \<le> 8"
proof -
  have "(8::real)\<^sup>2 < 11449" by simp
  then have "8 < sqrt 11449" by (rule real_less_rsqrt)
  then show ?thesis by simp
qed

lemma lineA_coords:
  "convertTimeAndPriceToCoordinates 107 100 pixelTimeScale pixelPriceScale 1 = Some \<lparr>cx = Px 107, cy = 100\<rparr>"
  "convertTimeAndPriceToCoordinates 207 100 pixelTimeScale pixelPriceScale 1 = Some \<lparr>cx = Px 207, cy = 100\<rparr>"
  using conv_pixel [of 107 100] conv_pixel [of 207 100] by simp_all

lemma lineB_coords:
  "convertTimeAndPriceToCoordinates 101 0 pixelTimeScale pixelPriceScale 1 = Some \<lparr>cx = Px 101, cy = 0\<rparr>"
  "convertTimeAndPriceToCoordinates 101 200 pixelTimeScale pixelPriceScale 1 = Some \<lparr>cx = Px 101, cy = 200\<rparr>"
  using conv_pixel [of 101 0] conv_pixel [of 101 200] by simp_all

lemma lineA_distances:
  "distanceToPoint 100 100 \<lparr>cx = Px 107, cy = 100\<rparr> = Some 7"
  "distanceToPoint 100 100 \<lparr>cx = Px 207, cy = 100\<rparr> = Some (sqrt 11449)"
  "distanceToSegment 100 100 \<lparr>cx = Px 107, cy = 100\<rparr> \<lparr>cx = Px 207, cy = 100\<rparr> = Some 7"
  by (simp_all add: distanceToPoint_def distanceToSegment_def distanceToLine_def Let_def sqrt49)

lemma lineB_distances:
  "distanceToPoint 100 100 \<lparr>cx = Px 101, cy = 0\<rparr> = Some (sqrt 10001)"
  "distanceToPoint 100 100 \<lparr>cx = Px 101, cy = 200\<rparr> = Some (sqrt 10001)"
  "distanceToSegment 100 100 \<lparr>cx = Px 101, cy = 0\<rparr> \<lparr>cx = Px 101, cy = 200\<rparr> = Some 1"
  by (simp_all add: distanceToPoint_def distanceToSegment_def distanceToLine_def Let_def)

lemma stepA_first:
  "hitTestStep pixelTimeScale pixelPriceScale 1 100 100 lineA (None, None)
     = (Some \<lparr>trendlineId = ''A'', hitType = HitPoint1, distance = 7\<rparr>, Some 7)"
  by (simp add: hitTestStep_def lineA_def newTrendline_def Let_def lineA_coords lineA_distances
        tryHit_def SELECTION_HIT_TOLERANCE_def LINE_HIT_TOLERANCE_def sqrt11449)

lemma stepB_after_A:
  "hitTestStep pixelTimeScale pixelPriceScale 1 100 100 lineB
       (Some \<lparr>trendlineId = ''A'', hitType = HitPoint1, distance = 7\<rparr>, Some 7)
     = (Some \<lparr>trendlineId = ''A'', hitType = HitPoint1, distance = 7\<rparr>, Some 7)"
  by (simp add: hitTestStep_def lineB_def newTrendline_def Let_def lineB_coords lineB_distances
        tryHit_def SELECTION_HIT_TOLERANCE_def LINE_HIT_TOLERANCE_def sqrt10001)

lemma stepB_first:
  "hitTestStep pixelTimeScale pixelPriceScale 1 100 100 lineB (None, None)
     = (Some \<lparr>trendlineId = ''B'', hitType = HitLine, distance = 1\<rparr>, Some 1)"
  by (simp add: hitTestStep_def lineB_def newTrendline_def Let_def lineB_coords lineB_distances
        tryHit_def SELECTION_HIT_TOLERANCE_def LINE_HIT_TOLERANCE_def sqrt10001)

lemma stepA_after_B:
  "hitTestStep pixelTimeScale pixelPriceScale 1 100 100 lineA
       (Some \<lparr>trendlineId = ''B'', hitType = HitLine, distance = 1\<rparr>, Some 1)
     = (Some \<lparr>trendlineId = ''B'', hitType = HitLine, distance = 1\<rparr>, Some 1)"
  by (simp add: hitTestStep_def lineA_def newTrendline_def Let_def lineA_coords lineA_distances
        tryHit_def SELECTION_HIT_TOLERANCE_def LINE_HIT_TOLERANCE_def sqrt11449)

lemma pixelPane_scale: "defaultPriceScale pixelPane = pixelPriceScale" "firstValue pixelPriceScale = Some 1"
  by (simp_all add: pixelPane_def defaultPriceScale_def newPane_def pixelPriceScale_def)

text \<open>
  C5. The closest hit does not always win. The click at (100, 100) is 7 pixels from the
  first anchor of \<open>lineA\<close> and 1 pixel from the segment of \<open>lineB\<close>, whose anchors are far.
  With \<open>lineA\<close> tested first the result is the anchor of \<open>lineA\<close>, at the distance 7: the
  line test of \<open>lineB\<close> is skipped, since a point hit is recorded. With \<open>lineB\<close> tested
  first the result is the line hit of \<open>lineB\<close>, at the distance 1.
\<close>

theorem hitTest_depends_on_order:
  "hitTestTrendlines (Some pixelPane) [lineA, lineB] pixelTimeScale 100 100
     = Some \<lparr>trendlineId = ''A'', hitType = HitPoint1, distance = 7\<rparr>
   \<and> hitTestTrendlines (Some pixelPane) [lineB, lineA] pixelTimeScale 100 100
     = Some \<lparr>trendlineId = ''B'', hitType = HitLine, distance = 1\<rparr>"
  by (simp add: hitTestTrendlines_def pixelPane_scale stepA_first stepB_after_A stepB_first stepA_after_B)

section \<open>A click beyond the last bar\<close>

lemma map_of_map_set: "map_of (map_set k v kvs) k = Some v"
  by (induction kvs) auto

lemma getCurrentSymbolTrendlines_set:
  "getCurrentSymbolTrendlines (setCurrentSymbolTrendlines t m) = t"
  by (simp add: getCurrentSymbolTrendlines_def setCurrentSymbolTrendlines_def map_of_map_set)

lemma getCurrentSymbolFibonacci_set:
  "getCurrentSymbolFibonacci (setCurrentSymbolFibonacci t m) = t"
  by (simp add: getCurrentSymbolFibonacci_def setCurrentSymbolFibonacci_def map_of_map_set)

lemma getCurrentSymbolTrendlines_cong:
  "currentSymbol m' = currentSymbol m \<Longrightarrow> trendlines m' = trendlines m
     \<Longrightarrow> trendlinesBySymbol m' = trendlinesBySymbol m
     \<Longrightarrow> getCurrentSymbolTrendlines m' = getCurrentSymbolTrendlines m"
  by (simp add: getCurrentSymbolTrendlines_def)

lemma deactivate_model:
  "model (deactivateTrendlineTool w) = model w"
  "model (deactivateFibonacciTool w) = model w"
  by (simp_all add: deactivateTrendlineTool_def deactivateFibonacciTool_def split: option.splits)

lemma addTrendline_current:
  "getCurrentSymbolTrendlines (model (addTrendline d w))
     = map_set (a_id d) (newTrendline d) (getCurrentSymbolTrendlines (model w))"
  by (simp add: addTrendline_def fullUpdate_fields getCurrentSymbolTrendlines_set)

lemma addFibonacci_current:
  "getCurrentSymbolFibonacci (model (addFibonacci d w))
     = map_set (a_id d) (newFibonacciRetracement d None) (getCurrentSymbolFibonacci (model w))"
  by (simp add: addFibonacci_def fullUpdate_fields getCurrentSymbolFibonacci_set)

lemma clickTimeValue_beyond:
  "indexToCoordinate ts (baseIndex ts) = Some bc \<Longrightarrow> x > bc \<Longrightarrow>
   clickTimeValue ts now time x = ChartWidget_extrapolateTimeFromCoordinate ts now x"
  by (simp add: clickTimeValue_def Let_def)

lemma handleTrendlineClick_first:
  assumes "firstValue (defaultPriceScale pane) = Some fv"
      and "coordinateToPrice (defaultPriceScale pane) y fv = Some pr"
      and "w_trendlineStartPoint w = None"
  shows "w_trendlineStartPoint (handleTrendlineClick ts now nid pane time (Some \<lparr>pt_x = x, pt_y = y\<rparr>) w)
           = Some \<lparr>dp_x = x, dp_y = y, dp_time = clickTimeValue ts now time x, dp_price = pr\<rparr>"
  using assms by (simp add: handleTrendlineClick_def Let_def)

lemma handleTrendlineClick_second:
  assumes "firstValue (defaultPriceScale pane) = Some fv"
      and "coordinateToPrice (defaultPriceScale pane) y fv = Some pr"
      and "w_trendlineStartPoint w = Some sp"
  shows "getCurrentSymbolTrendlines (model (handleTrendlineClick ts now nid pane time (Some \<lparr>pt_x = x, pt_y = y\<rparr>) w))
           = map_set nid (newTrendline \<lparr>a_id = nid,
                 point1 = \<lparr>p_time = dp_time sp, p_value = dp_price sp\<rparr>,
                 point2 = \<lparr>p_time = clickTimeValue ts now time x, p_value = pr\<rparr>\<rparr>)
               (getCurrentSymbolTrendlines (model w))"
proof -
  let ?d = "\<lparr>a_id = nid, point1 = \<lparr>p_time = dp_time sp, p_value = dp_price sp\<rparr>,
                 point2 = \<lparr>p_time = clickTimeValue ts now time x, p_value = pr\<rparr>\<rparr>"
  have "getCurrentSymbolTrendlines (model (handleTrendlineClick ts now nid pane time (Some \<lparr>pt_x = x, pt_y = y\<rparr>) w))
        = getCurrentSymbolTrendlines (model (addTrendline ?d w))"
    using assms
    by (intro getCurrentSymbolTrendlines_cong)
       (simp_all add: handleTrendlineClick_def Let_def fullUpdate_fields deactivate_model
          applyOptions_crosshairMode_fields setCursorStyle_def setTrendlineDrawingState_def
          setTrendlineStartPoint_def setTrendlinePreviewEnd_def split: option.splits)
  then show ?thesis by (simp add: addTrendline_current)
qed

lemma handleFibonacciClick_first:
  assumes "firstValue (defaultPriceScale pane) = Some fv"
      and "coordinateToPrice (defaultPriceScale pane) y fv = Some pr"
      and "fibonacciStartPoint w = None"
  shows "fibonacciStartPoint (handleFibonacciClick ts now nid pane time (Some \<lparr>pt_x = x, pt_y = y\<rparr>) w)
           = Some \<lparr>dp_x = x, dp_y = y, dp_time = clickTimeValue ts now time x, dp_price = pr\<rparr>"
  using assms by (simp add: handleFibonacciClick_def Let_def)

lemma handleFibonacciClick_second:
  assumes "firstValue (defaultPriceScale pane) = Some fv"
      and "coordinateToPrice (defaultPriceScale pane) y fv = Some pr"
      and "fibonacciStartPoint w = Some sp"
  shows "getCurrentSymbolFibonacci (model (handleFibonacciClick ts now nid pane time (Some \<lparr>pt_x = x, pt_y = y\<rparr>) w))
           = map_set nid (newFibonacciRetracement \<lparr>a_id = nid,
                 point1 = \<lparr>p_time = dp_time sp, p_value = dp_price sp\<rparr>,
                 point2 = \<lparr>p_time = clickTimeValue ts now time x, p_value = pr\<rparr>\<rparr> None)
               (getCurrentSymbolFibonacci (model w))"
  using assms
  by (simp add: handleFibonacciClick_def Let_def deactivate_model setCursorStyle_def addFibonacci_current)

lemma toggle_on_widget:
  "w_isDrawingTrendline (onTrendlineToolToggle True w) = True"
  "w_trendlineStartPoint (onTrendlineToolToggle True w) = None"
  by (simp_all add: onTrendlineToolToggle_def Let_def setTrendlineDrawingState_def
        setCursorStyle_def getLastMousePosition_def fullUpdate_fields applyOptions_crosshairMode_fields)

lemma fib_toggle_on_widget:
  "isDrawingFibonacci (onFibonacciToolToggle True w) = True"
  "fibonacciStartPoint (onFibonacciToolToggle True w) = None"
  "w_isDrawingTrendline (onFibonacciToolToggle True w) = w_isDrawingTrendline w"
  by (simp_all add: onFibonacciToolToggle_def Let_def setCursorStyle_def applyOptions_crosshairMode_def fullUpdate_fields)

lemma chart1_not_drawing:
  "w_isDrawingTrendline chart1 = False" "isDrawingFibonacci chart1 = False"
  by (simp_all add: chart1_def newChartWidget_def newChartModel_def getOrCreatePane_def assertFails_def
      emptyChartWidget_def emptyChartModel_def Let_def invalidate_fields storePane_def setPanes_def
      devEnv_def)

lemma scenario_base: "indexToCoordinate scenarioTimeScale (baseIndex scenarioTimeScale) = Some 20"
  by (simp add: scenarioTimeScale_def)

lemma scenario_extrapolate_30: "ChartWidget_extrapolateTimeFromCoordinate scenarioTimeScale now 30 = 300"
  by (simp add: ChartWidget_extrapolateTimeFromCoordinate_def scenarioTimeScale_def
        originalTimeAt_def Let_def)

lemma pixelPane_price:
  "firstValue (defaultPriceScale pixelPane) = Some 1"
  "coordinateToPrice (defaultPriceScale pixelPane) y 1 = Some y"
  by (simp_all add: pixelPane_def defaultPriceScale_def newPane_def pixelPriceScale_def)

lemma trendlineChart_state:
  "w_isDrawingTrendline trendlineChart = True" "w_trendlineStartPoint trendlineChart = None"
  by (simp_all add: trendlineChart_def toggle_on_widget)

lemma clickTimeValue_scenario_15: "clickTimeValue scenarioTimeScale now (Some 0) 15 = 100"
  by (simp add: clickTimeValue_def scenarioTimeScale_def originalTimeAt_def Let_def)

lemma handleTrendlineClick_first_drawing:
  assumes "firstValue (defaultPriceScale pane) = Some fv"
      and "coordinateToPrice (defaultPriceScale pane) y fv = Some pr"
      and "w_trendlineStartPoint w = None"
  shows "w_isDrawingTrendline (handleTrendlineClick ts now nid pane time (Some \<lparr>pt_x = x, pt_y = y\<rparr>) w)
           = w_isDrawingTrendline w"
  using assms by (simp add: handleTrendlineClick_def Let_def)

lemma trendlineChart1_state:
  "w_isDrawingTrendline trendlineChart1 = True"
  "w_trendlineStartPoint trendlineChart1 = Some \<lparr>dp_x = 15, dp_y = 50, dp_time = 100, dp_price = 50\<rparr>"
  by (simp_all add: trendlineChart1_def onPaneWidgetClicked_def trendlineChart_state
        handleTrendlineClick_first [OF pixelPane_price trendlineChart_state(2)]
        handleTrendlineClick_first_drawing [OF pixelPane_price trendlineChart_state(2)]
        clickTimeValue_scenario_15)

lemma fibonacciChart_state:
  "w_isDrawingTrendline fibonacciChart = False" "isDrawingFibonacci fibonacciChart = True"
  "fibonacciStartPoint fibonacciChart = None"
  by (simp_all add: fibonacciChart_def fib_toggle_on_widget chart1_not_drawing)

text \<open>
  C4. A click in a drawing mode whose pixel x is beyond the coordinate of \<open>baseIndex\<close>,
  on a pane whose price scale has a first value and converts the y of the click: the time
  of the click is the value of the extrapolation function at x, whatever index \<open>time\<close>
  came with the click. That time is the time of the start anchor a first click stores and
  of the second anchor of the annotation a second click creates, for the trendline tool
  and for the Fibonacci tool. With two reference points at different coordinates it is
  the time of the last point plus the pixels beyond it times the time per pixel.
\<close>

theorem click_beyond_last_bar_extrapolates:
  assumes "indexToCoordinate ts (baseIndex ts) = Some bc"
      and "x > bc"
      and "firstValue (defaultPriceScale pane) = Some fv"
      and "coordinateToPrice (defaultPriceScale pane) y fv = Some pr"
  shows "clickTimeValue ts now time x = ChartWidget_extrapolateTimeFromCoordinate ts now x
     \<and> (w_isDrawingTrendline w \<and> w_trendlineStartPoint w = None \<longrightarrow>
          w_trendlineStartPoint (onPaneWidgetClicked ts now nid pane time (Some \<lparr>pt_x = x, pt_y = y\<rparr>) w)
            = Some \<lparr>dp_x = x, dp_y = y,
                    dp_time = ChartWidget_extrapolateTimeFromCoordinate ts now x, dp_price = pr\<rparr>)
     \<and> (w_isDrawingTrendline w \<and> w_trendlineStartPoint w = Some sp \<longrightarrow>
          map_of (getCurrentSymbolTrendlines
                    (model (onPaneWidgetClicked ts now nid pane time (Some \<lparr>pt_x = x, pt_y = y\<rparr>) w))) nid
            = Some (newTrendline \<lparr>a_id = nid,
                      point1 = \<lparr>p_time = dp_time sp, p_value = dp_price sp\<rparr>,
                      point2 = \<lparr>p_time = ChartWidget_extrapolateTimeFromCoordinate ts now x, p_value = pr\<rparr>\<rparr>))
     \<and> (\<not> w_isDrawingTrendline w \<and> isDrawingFibonacci w \<and> fibonacciStartPoint w = None \<longrightarrow>
          fibonacciStartPoint (onPaneWidgetClicked ts now nid pane time (Some \<lparr>pt_x = x, pt_y = y\<rparr>) w)
            = Some \<lparr>dp_x = x, dp_y = y,
                    dp_time = ChartWidget_extrapolateTimeFromCoordinate ts now x, dp_price = pr\<rparr>)
     \<and> (\<not> w_isDrawingTrendline w \<and> isDrawingFibonacci w \<and> fibonacciStartPoint w = Some sp \<longrightarrow>
          map_of (getCurrentSymbolFibonacci
                    (model (onPaneWidgetClicked ts now nid pane time (Some \<lparr>pt_x = x, pt_y = y\<rparr>) w))) nid
            = Some (newFibonacciRetracement \<lparr>a_id = nid,
                      point1 = \<lparr>p_time = dp_time sp, p_value = dp_price sp\<rparr>,
                      point2 = \<lparr>p_time = ChartWidget_extrapolateTimeFromCoordinate ts now x, p_value = pr\<rparr>\<rparr> None))
     \<and> (originalTimeAt ts (baseIndex ts) = Some bt \<and> originalTimeAt ts (baseIndex ts - 1) = Some pt
          \<and> indexToCoordinate ts (baseIndex ts - 1) = Some pc \<and> bc \<noteq> pc \<longrightarrow>
          clickTimeValue ts now time x = bt + (x - bc) * ((bt - pt) / (bc - pc)))"
proof -
  have t: "clickTimeValue ts now time x = ChartWidget_extrapolateTimeFromCoordinate ts now x"
    using assms(1,2) by (rule clickTimeValue_beyond)
  have l: "originalTimeAt ts (baseIndex ts) = Some bt \<and> originalTimeAt ts (baseIndex ts - 1) = Some pt
          \<and> indexToCoordinate ts (baseIndex ts - 1) = Some pc \<and> bc \<noteq> pc \<longrightarrow>
          clickTimeValue ts now time x = bt + (x - bc) * ((bt - pt) / (bc - pc))"
    using assms(1) by (simp add: t extrapolate_main_path_agree(1))
  show ?thesis
    using l
    by (simp add: onPaneWidgetClicked_def t [symmetric]
          handleTrendlineClick_first [OF assms(3,4)] handleTrendlineClick_second [OF assms(3,4)]
          handleFibonacciClick_first [OF assms(3,4)] handleFibonacciClick_second [OF assms(3,4)]
          map_of_map_set)
qed

theorem click_beyond_last_bar_extrapolates_witness:
  "indexToCoordinate scenarioTimeScale (baseIndex scenarioTimeScale) = Some 20
   \<and> (30::real) > 20
   \<and> clickTimeValue scenarioTimeScale 0 (Some 1) 30 = 300
   \<and> w_trendlineStartPoint
        (onPaneWidgetClicked scenarioTimeScale 0 ''t1'' pixelPane (Some 1) (Some \<lparr>pt_x = 30, pt_y = 50\<rparr>) trendlineChart)
       = Some \<lparr>dp_x = 30, dp_y = 50, dp_time = 300, dp_price = 50\<rparr>
   \<and> map_of (getCurrentSymbolTrendlines (model
        (onPaneWidgetClicked scenarioTimeScale 0 ''t1'' pixelPane (Some 1) (Some \<lparr>pt_x = 30, pt_y = 50\<rparr>) trendlineChart1)))
        ''t1''
       = Some (newTrendline \<lparr>a_id = ''t1'', point1 = \<lparr>p_time = 100, p_value = 50\<rparr>,
                               point2 = \<lparr>p_time = 300, p_value = 50\<rparr>\<rparr>)
   \<and> fibonacciStartPoint
        (onPaneWidgetClicked scenarioTimeScale 0 ''t1'' pixelPane (Some 1) (Some \<lparr>pt_x = 30, pt_y = 50\<rparr>) fibonacciChart)
       = Some \<lparr>dp_x = 30, dp_y = 50, dp_time = 300, dp_price = 50\<rparr>"
proof -
  have b: "(20::real) < 30" by simp
  note th = click_beyond_last_bar_extrapolates [where y = 50 and now = 0 and time = "Some 1"
      and nid = "''t1''", OF scenario_base b pixelPane_price(1) pixelPane_price(2) [of 50]]
  show ?thesis
    using th [where w = trendlineChart]
          th [where w = trendlineChart1 and sp = "\<lparr>dp_x = 15, dp_y = 50, dp_time = 100, dp_price = 50\<rparr>"]
          th [where w = fibonacciChart]
    by (simp add: scenario_base scenario_extrapolate_30 trendlineChart_state trendlineChart1_state
          fibonacciChart_state)
qed

end
